theory Spec2Isabelle
  imports Main "HOL-Library.AList"
begin

section \<open>Values shared by the services\<close>

text \<open>
  A JavaScript \<open>Error\<close> is modelled by its message. Every \<open>throw\<close> and every
  rejected promise of the source is the \<open>Inl\<close> branch of a result \<open>error + 'a\<close>.
\<close>

datatype error = Error string

text \<open>\<open>DeployAction\<close> (src/services/cloud/types): the three lifecycle actions.\<close>

datatype DeployAction = Deploy | Update | Delete

text \<open>
  A JavaScript number is represented by the string \<open>String(x)\<close> gives for it:
  converting it to a string is all the code modelled here does with a number
  (\<open>0\<close> and \<open>-0\<close>, which print alike, are one value).
\<close>

datatype number = Number string

datatype Arch = x86_64 | arm64

fun Arch_string :: "Arch \<Rightarrow> string" where
  "Arch_string x86_64 = ''x86_64''"
| "Arch_string arm64 = ''arm64''"

text \<open>JavaScript's \<open>String(x)\<close> on a number and on a boolean.\<close>

fun String_number :: "number \<Rightarrow> string" where
  "String_number (Number s) = s"

definition String_boolean :: "bool \<Rightarrow> string" where
  "String_boolean b = (if b then ''true'' else ''false'')"

text \<open>Truthiness of an optional string: defined and not empty.\<close>

fun truthy :: "string option \<Rightarrow> bool" where
  "truthy None = False"
| "truthy (Some s) = (s \<noteq> [])"

text \<open>\<open>x ?? ''\<close> on an optional string.\<close>

fun orEmpty :: "string option \<Rightarrow> string" where
  "orEmpty None = []"
| "orEmpty (Some s) = s"

section \<open>The deployment configuration\<close>

text \<open>\<open>DeployConfig\<close> / \<open>DeployConfiguration\<close> (the two types have the same fields).\<close>

record DeployConfig =
  stackName :: string
  arch :: Arch
  lambdaMemorySize :: number
  dispatcherMemorySize :: number
  reducerMemorySize :: number
  workerMemorySize :: number
  enablePrivateVpc :: bool
  enablePrivateEndpoint :: bool
  enableLogging :: bool
  clapdbVersion :: "string option"
  artifactsBucket :: "string option"
  templateBody :: "string option"
  updateBuiltinTemplate :: bool

section \<open>The CloudFormation service\<close>

text \<open>The parts of the engine's data the service reads or writes.\<close>

record Parameter =
  ParameterKey :: string
  ParameterValue :: "string option"
  UsePreviousValue :: "bool option"

record StackInput =
  StackName :: string
  TemplateBody :: "string option"
  Capabilities :: "string list"
  Parameters :: "Parameter list"
  Tags :: "(string \<times> string) list"

record UpdateStackInput = StackInput +
  UsePreviousTemplate :: bool

datatype Command =
  CreateStackCommand StackInput
| UpdateStackCommand UpdateStackInput
| GetTemplateCommand string

record Output =
  OutputKey :: "string option"
  OutputValue :: "string option"

text \<open>
  A stack of a \<open>DescribeStacks\<close> response. An undefined \<open>Stacks\<close> or \<open>Outputs\<close>
  array is the empty list: the source reads them only through \<open>?? []\<close> and
  \<open>?.length\<close>, which do not tell the two apart.
\<close>

record Stack =
  StackStatus :: "string option"
  Outputs :: "Output list"

record StackResource =
  LogicalResourceId :: "string option"
  ResourceStatus :: "string option"

text \<open>
  The service instance: its memoized \<open>outputs\<close> map (in insertion order) and its
  client. The client is the engine seen from the service: the reply the engine
  gives to the \<open>i\<close>-th \<open>DescribeStacks\<close> (resp. \<open>DescribeStackResources\<close>)
  request for a stack name, the number of such requests sent so far, the reply to
  a template, create or update request, and the list of the mutating requests
  sent, oldest first.
\<close>

record CloudFormationService =
  outputs :: "(string \<times> string) list"
  describeStacksReply :: "nat \<Rightarrow> string \<Rightarrow> error + Stack list"
  describeStacksCalls :: nat
  describeStackResourcesReply :: "nat \<Rightarrow> string \<Rightarrow> error + StackResource list"
  describeStackResourcesCalls :: nat
  getTemplateReply :: "string \<Rightarrow> error + string option"
  createStackReply :: "StackInput \<Rightarrow> error + string option"
  updateStackReply :: "UpdateStackInput \<Rightarrow> error + string option"
  sent :: "Command list"

text \<open>The \<open>ora\<close> spinner: its text and how many times \<open>stop()\<close> was called.\<close>

record Ora =
  spinnerText :: string
  stopCalls :: nat

definition notFound :: "string \<Rightarrow> error" where
  "notFound nm = Error (''Stack '' @ [CHR 0x27] @ nm @ [CHR 0x27] @ '' not found'')"

definition getStackStatus ::
  "CloudFormationService \<Rightarrow> string \<Rightarrow> (error + string) \<times> CloudFormationService" where
  "getStackStatus cf nm =
     (let response = describeStacksReply cf (describeStacksCalls cf) nm;
          cf' = cf\<lparr>describeStacksCalls := Suc (describeStacksCalls cf)\<rparr>
      in case response of
           Inl e \<Rightarrow> (Inl e, cf')
         | Inr [] \<Rightarrow> (Inl (notFound nm), cf')
         | Inr (stack # _) \<Rightarrow> (Inr (orEmpty (StackStatus stack)), cf'))"

definition terminalStates :: "string list" where
  "terminalStates =
     [''CREATE_COMPLETE'', ''UPDATE_COMPLETE'', ''DELETE_COMPLETE'',
      ''UPDATE_ROLLBACK_COMPLETE'']"

definition failedStates :: "string list" where
  "failedStates =
     [''CREATE_FAILED'', ''UPDATE_FAILED'', ''DELETE_FAILED'', ''ROLLBACK_FAILED'',
      ''UPDATE_ROLLBACK_FAILED'', ''ROLLBACK_COMPLETE'', ''UPDATE_ROLLBACK_COMPLETE'']"

definition isStackDeployCompleted ::
  "CloudFormationService \<Rightarrow> string \<Rightarrow> (error + bool) \<times> CloudFormationService" where
  "isStackDeployCompleted cf nm =
     (case getStackStatus cf nm of
        (Inl e, cf') \<Rightarrow> (Inl e, cf')
      | (Inr status, cf') \<Rightarrow> (Inr (status \<in> set terminalStates), cf'))"

definition isStackDeployFailed ::
  "CloudFormationService \<Rightarrow> string \<Rightarrow> (error + bool) \<times> CloudFormationService" where
  "isStackDeployFailed cf nm =
     (case getStackStatus cf nm of
        (Inl e, cf') \<Rightarrow> (Inl e, cf')
      | (Inr status, cf') \<Rightarrow> (Inr (status \<in> set failedStates), cf'))"

text \<open>
  \<open>getResourcesStatus\<close>: a map from logical resource id to status, filled in the
  order of the response, a later entry for the same id replacing the value in place
  (as \<open>Map.set\<close> does).
\<close>

fun setResourceStatus :: "StackResource \<Rightarrow> (string \<times> string) list \<Rightarrow> (string \<times> string) list" where
  "setResourceStatus r m =
     (case (LogicalResourceId r, ResourceStatus r) of
        (Some k, Some v) \<Rightarrow> (if k \<noteq> [] \<and> v \<noteq> [] then AList.update k v m else m)
      | _ \<Rightarrow> m)"

definition getResourcesStatus ::
  "CloudFormationService \<Rightarrow> string \<Rightarrow> (error + (string \<times> string) list) \<times> CloudFormationService" where
  "getResourcesStatus cf nm =
     (let response = describeStackResourcesReply cf (describeStackResourcesCalls cf) nm;
          cf' = cf\<lparr>describeStackResourcesCalls := Suc (describeStackResourcesCalls cf)\<rparr>
      in case response of
           Inl e \<Rightarrow> (Inl e, cf')
         | Inr rs \<Rightarrow> (Inr (fold setResourceStatus rs []), cf'))"

section \<open>The watchers\<close>

text \<open>The resource status that counts as progress for an action.\<close>

fun processed :: "DeployAction \<Rightarrow> string \<Rightarrow> bool" where
  "processed Deploy s = (s = ''CREATE_COMPLETE'' \<or> s = ''UPDATE_COMPLETE'')"
| "processed Delete s = (s = ''DELETE_COMPLETE'')"
| "processed Update s = (s = ''UPDATE_COMPLETE'')"

text \<open>The \<open>for\<close> loop of \<open>showFirstProcessedResource\<close>: the first entry that counts.\<close>

fun firstProcessed :: "DeployAction \<Rightarrow> (string \<times> string) list \<Rightarrow> (string \<times> string) option" where
  "firstProcessed action [] = None"
| "firstProcessed action ((resource, resourceStatus) # rest) =
     (if processed action resourceStatus then Some (resource, resourceStatus)
      else firstProcessed action rest)"

definition showFirstProcessedResource ::
  "CloudFormationService \<Rightarrow> string \<Rightarrow> Ora \<Rightarrow> DeployAction \<Rightarrow> bool \<times> CloudFormationService \<times> Ora" where
  "showFirstProcessedResource cf nm sp action =
     (case getResourcesStatus cf nm of
        (Inl e, cf') \<Rightarrow> (action = Delete \<or> action = Deploy, cf', sp)
      | (Inr status, cf') \<Rightarrow>
          (case firstProcessed action status of
             Some (resource, resourceStatus) \<Rightarrow>
               (True, cf', sp\<lparr>spinnerText := '' '' @ resource @ '' => '' @ resourceStatus\<rparr>)
           | None \<Rightarrow> (False, cf', sp)))"

fun messages :: "DeployAction \<Rightarrow> string" where
  "messages Deploy = ''deploy service failed, you should check deploy detail''"
| "messages Update = ''update service failed, you should check update detail''"
| "messages Delete = ''delete service failed, you should check delete detail''"

definition checkFailed :: error where
  "checkFailed = Error ''Failed to check deployment status''"

text \<open>
  \<open>AWSCloudProvider.watchService\<close>. The \<open>while (true)\<close> loop runs at most \<open>fuel\<close>
  iterations; \<open>None\<close> is a loop that is still polling after them. The 500 ms
  delay between two iterations changes nothing of the state.
\<close>

fun watchLoop ::
  "nat \<Rightarrow> CloudFormationService \<Rightarrow> string \<Rightarrow> Ora \<Rightarrow> DeployAction \<Rightarrow>
     ((error + unit) \<times> CloudFormationService \<times> Ora) option" where
  "watchLoop 0 cf nm sp action = None"
| "watchLoop (Suc fuel) cf nm sp action =
     (case isStackDeployCompleted cf nm of
        (Inl e, cf1) \<Rightarrow>
          (if action = Delete then Some (Inr (), cf1, sp) else Some (Inl checkFailed, cf1, sp))
      | (Inr completed, cf1) \<Rightarrow>
          (if \<not> completed then
             (case showFirstProcessedResource cf1 nm sp action of
                (shown, cf2, sp2) \<Rightarrow> watchLoop fuel cf2 nm sp2 action)
           else
             (case isStackDeployFailed cf1 nm of
                (Inl e, cf2) \<Rightarrow>
                  (if action = Delete then Some (Inr (), cf2, sp)
                   else Some (Inl checkFailed, cf2, sp))
              | (Inr failed, cf2) \<Rightarrow>
                  (if failed then Some (Inl (Error (messages action)), cf2, sp)
                   else Some (Inr (), cf2, sp)))))"

text \<open>The \<open>try ... finally\<close>: the spinner is stopped when the loop is left.\<close>

definition watchService ::
  "nat \<Rightarrow> CloudFormationService \<Rightarrow> string \<Rightarrow> Ora \<Rightarrow> DeployAction \<Rightarrow>
     ((error + unit) \<times> CloudFormationService \<times> Ora) option" where
  "watchService fuel cf nm sp action =
     (case watchLoop fuel cf nm sp action of
        None \<Rightarrow> None
      | Some (r, cf', sp') \<Rightarrow> Some (r, cf', sp'\<lparr>stopCalls := Suc (stopCalls sp')\<rparr>))"

text \<open>
  The legacy \<open>AWSService.watchService\<close>: the same loop, but an error of a status
  query is thrown again as it is.
\<close>

fun legacyWatchLoop ::
  "nat \<Rightarrow> CloudFormationService \<Rightarrow> string \<Rightarrow> Ora \<Rightarrow> DeployAction \<Rightarrow>
     ((error + unit) \<times> CloudFormationService \<times> Ora) option" where
  "legacyWatchLoop 0 cf nm sp action = None"
| "legacyWatchLoop (Suc fuel) cf nm sp action =
     (case isStackDeployCompleted cf nm of
        (Inl err, cf1) \<Rightarrow>
          (if action = Delete then Some (Inr (), cf1, sp) else Some (Inl err, cf1, sp))
      | (Inr completed, cf1) \<Rightarrow>
          (if \<not> completed then
             (case showFirstProcessedResource cf1 nm sp action of
                (shown, cf2, sp2) \<Rightarrow> legacyWatchLoop fuel cf2 nm sp2 action)
           else
             (case isStackDeployFailed cf1 nm of
                (Inl err, cf2) \<Rightarrow>
                  (if action = Delete then Some (Inr (), cf2, sp) else Some (Inl err, cf2, sp))
              | (Inr failed, cf2) \<Rightarrow>
                  (if failed then Some (Inl (Error (messages action)), cf2, sp)
                   else Some (Inr (), cf2, sp)))))"

definition legacyWatchService ::
  "nat \<Rightarrow> CloudFormationService \<Rightarrow> string \<Rightarrow> Ora \<Rightarrow> DeployAction \<Rightarrow>
     ((error + unit) \<times> CloudFormationService \<times> Ora) option" where
  "legacyWatchService fuel cf nm sp action =
     (case legacyWatchLoop fuel cf nm sp action of
        None \<Rightarrow> None
      | Some (r, cf', sp') \<Rightarrow> Some (r, cf', sp'\<lparr>stopCalls := Suc (stopCalls sp')\<rparr>))"

text \<open>
  What the watcher observes. \<open>replyStatus\<close> is the status a \<open>DescribeStacks\<close> reply
  carries (\<open>None\<close> when \<open>getStackStatus\<close> throws on it); \<open>inProgress reply nm i k\<close>
  says that the \<open>k\<close> replies from the \<open>i\<close>-th on carry a status outside the
  Completed set; \<open>queryThrows\<close> and \<open>failedCheckThrows\<close> say that the \<open>i\<close>-th status
  query throws, as the Completed check of a poll or as its Failed check.
\<close>

fun replyStatus :: "error + Stack list \<Rightarrow> string option" where
  "replyStatus (Inl e) = None"
| "replyStatus (Inr []) = None"
| "replyStatus (Inr (stack # rest)) = Some (orEmpty (StackStatus stack))"

fun inProgress :: "(nat \<Rightarrow> string \<Rightarrow> error + Stack list) \<Rightarrow> string \<Rightarrow> nat \<Rightarrow> nat \<Rightarrow> bool" where
  "inProgress reply nm i 0 = True"
| "inProgress reply nm i (Suc k) =
     (case replyStatus (reply i nm) of
        None \<Rightarrow> False
      | Some s \<Rightarrow> s \<notin> set terminalStates \<and> inProgress reply nm (Suc i) k)"

definition queryThrows :: "(nat \<Rightarrow> string \<Rightarrow> error + Stack list) \<Rightarrow> string \<Rightarrow> nat \<Rightarrow> bool" where
  "queryThrows reply nm i = (replyStatus (reply i nm) = None)"

definition failedCheckThrows :: "(nat \<Rightarrow> string \<Rightarrow> error + Stack list) \<Rightarrow> string \<Rightarrow> nat \<Rightarrow> bool" where
  "failedCheckThrows reply nm i =
     (case replyStatus (reply i nm) of
        None \<Rightarrow> False
      | Some s \<Rightarrow> s \<in> set terminalStates \<and> replyStatus (reply (Suc i) nm) = None)"

text \<open>
  The result of the status query a service sent last: the query is run again on
  the service set back by one request.
\<close>

definition lastQuery :: "CloudFormationService \<Rightarrow> string \<Rightarrow> error + string" where
  "lastQuery cf nm =
     fst (getStackStatus (cf\<lparr>describeStacksCalls := describeStacksCalls cf - 1\<rparr>) nm)"

text \<open>
  The results \<open>r\<close> of the provider's watcher and \<open>r'\<close> of the legacy watcher, read
  off the last status query \<open>q\<close> of the run. When the query threw, a delete is a
  success for both, and a deploy or an update ends with the fixed status-check
  error for the provider's watcher and with the error of the query for the legacy
  one. When the query gave a status, it was the Failed check, and both watchers
  fail with the message of the action or both succeed. Two runs agree when both
  are still polling, or both have stopped in the same state with such results.
\<close>

definition sameOutcome ::
  "DeployAction \<Rightarrow> error + string \<Rightarrow> error + unit \<Rightarrow> error + unit \<Rightarrow> bool" where
  "sameOutcome action q r r' =
     (case q of
        Inl e \<Rightarrow>
          (if action = Delete then r = Inr () \<and> r' = Inr ()
           else r = Inl checkFailed \<and> r' = Inl e)
      | Inr status \<Rightarrow>
          r = r' \<and>
          r = (if status \<in> set failedStates then Inl (Error (messages action)) else Inr ()))"

definition agree ::
  "string \<Rightarrow> DeployAction \<Rightarrow> ((error + unit) \<times> CloudFormationService \<times> Ora) option \<Rightarrow>
     ((error + unit) \<times> CloudFormationService \<times> Ora) option \<Rightarrow> bool" where
  "agree nm action new old =
     (case (new, old) of
        (None, None) \<Rightarrow> True
      | (Some (r, cf1, sp1), Some (r', cf2, sp2)) \<Rightarrow>
          cf1 = cf2 \<and> sp1 = sp2 \<and> sameOutcome action (lastQuery cf1 nm) r r'
      | _ \<Rightarrow> False)"

text \<open>Engines and a spinner to run the watchers on.\<close>

definition stackWithStatus :: "string \<Rightarrow> Stack" where
  "stackWithStatus s = \<lparr>StackStatus = Some s, Outputs = []\<rparr>"

definition serviceWith :: "(nat \<Rightarrow> string \<Rightarrow> error + Stack list) \<Rightarrow> CloudFormationService" where
  "serviceWith reply =
     \<lparr>outputs = [], describeStacksReply = reply, describeStacksCalls = 0,
      describeStackResourcesReply = (\<lambda>i nm. Inr []), describeStackResourcesCalls = 0,
      getTemplateReply = (\<lambda>nm. Inr None), createStackReply = (\<lambda>inp. Inr None),
      updateStackReply = (\<lambda>inp. Inr None), sent = []\<rparr>"

definition spinner0 :: Ora where
  "spinner0 = \<lparr>spinnerText = [], stopCalls = 0\<rparr>"

text \<open>The engine reports the statuses of the list in turn, then keeps the last one.\<close>

definition scripted :: "string list \<Rightarrow> nat \<Rightarrow> string \<Rightarrow> error + Stack list" where
  "scripted xs i nm = Inr [stackWithStatus (if i < length xs then xs ! i else last xs)]"

text \<open>A stack that is being deleted at the first query and gone at the next ones.\<close>

definition vanishing :: "nat \<Rightarrow> string \<Rightarrow> error + Stack list" where
  "vanishing i nm =
     (if i = 0 then Inr [stackWithStatus ''DELETE_IN_PROGRESS'']
      else Inl (Error ''Stack with id clapdb-stack does not exist''))"

text \<open>An engine that is throttling every status query.\<close>

definition throttled :: "nat \<Rightarrow> string \<Rightarrow> error + Stack list" where
  "throttled i nm = Inl (Error ''Rate exceeded'')"

section \<open>Creating and updating a stack\<close>

text \<open>
  A parameter of a request is an object literal with a value or with the
  \<open>UsePreviousValue\<close> flag; the keys are the strings of \<open>PARAMETER_NAMES\<close>.
\<close>

definition valueParameter :: "string \<Rightarrow> string option \<Rightarrow> Parameter" where
  "valueParameter k v = \<lparr>ParameterKey = k, ParameterValue = v, UsePreviousValue = None\<rparr>"

definition previousParameter :: "string \<Rightarrow> Parameter" where
  "previousParameter k = \<lparr>ParameterKey = k, ParameterValue = None, UsePreviousValue = Some True\<rparr>"

text \<open>The \<open>CreateStackCommand\<close> that \<open>createStack\<close> builds.\<close>

definition createStackInput :: "string \<Rightarrow> DeployConfig \<Rightarrow> StackInput" where
  "createStackInput nm config =
     \<lparr>StackName = nm,
      TemplateBody = templateBody config,
      Capabilities = [''CAPABILITY_IAM''],
      Parameters =
        [valueParameter ''StackName'' (Some nm),
         valueParameter ''Arch'' (Some (Arch_string (arch config))),
         valueParameter ''ArtifactsBucket'' (artifactsBucket config),
         valueParameter ''ClapDBVersion'' (clapdbVersion config),
         valueParameter ''LambdaMemorySize'' (Some (String_number (lambdaMemorySize config))),
         valueParameter ''EnablePrivateVPC'' (Some (String_boolean (enablePrivateVpc config))),
         valueParameter ''EnablePrivateEndpoint''
           (Some (String_boolean (enablePrivateEndpoint config))),
         valueParameter ''EnableLogging'' (Some (String_boolean (enableLogging config)))],
      Tags = [(''Vendor'', ''ClapDB'')]\<rparr>"

definition createStack ::
  "CloudFormationService \<Rightarrow> string \<Rightarrow> DeployConfig \<Rightarrow> (error + string) \<times> CloudFormationService" where
  "createStack cf nm config =
     (let command = createStackInput nm config;
          cf' = cf\<lparr>sent := sent cf @ [CreateStackCommand command]\<rparr>
      in case createStackReply cf command of
           Inl e \<Rightarrow> (Inl e, cf')
         | Inr stackId \<Rightarrow> (Inr (orEmpty stackId), cf'))"

definition getTemplateBody ::
  "CloudFormationService \<Rightarrow> string \<Rightarrow> (error + string) \<times> CloudFormationService" where
  "getTemplateBody cf nm =
     (let cf' = cf\<lparr>sent := sent cf @ [GetTemplateCommand nm]\<rparr>
      in case getTemplateReply cf nm of
           Inl e \<Rightarrow> (Inl e, cf')
         | Inr body \<Rightarrow> (Inr (orEmpty body), cf'))"

text \<open>The \<open>UpdateStackCommand\<close> that \<open>updateStack\<close> builds, for a template body.\<close>

definition updateStackInput :: "string \<Rightarrow> DeployConfig \<Rightarrow> string \<Rightarrow> UpdateStackInput" where
  "updateStackInput nm config body =
     \<lparr>StackName = nm,
      TemplateBody = Some body,
      Capabilities = [''CAPABILITY_NAMED_IAM''],
      Parameters =
        [valueParameter ''StackName'' (Some nm),
         previousParameter ''Arch'',
         previousParameter ''ArtifactsBucket'',
         valueParameter ''ClapDBVersion'' (clapdbVersion config),
         previousParameter ''EnablePrivateVPC'',
         previousParameter ''EnablePrivateEndpoint'',
         valueParameter ''LambdaMemorySize'' (Some (String_number (lambdaMemorySize config))),
         valueParameter ''DispatcherMemorySize''
           (Some (String_number (dispatcherMemorySize config))),
         valueParameter ''ReducerMemorySize'' (Some (String_number (reducerMemorySize config))),
         valueParameter ''WorkerMemorySize'' (Some (String_number (workerMemorySize config))),
         valueParameter ''EnableLogging'' (Some (String_boolean (enableLogging config)))],
      Tags = [(''Vendor'', ''ClapDB'')],
      UsePreviousTemplate = False\<rparr>"

definition updateStack ::
  "CloudFormationService \<Rightarrow> string \<Rightarrow> DeployConfig \<Rightarrow> (error + string) \<times> CloudFormationService" where
  "updateStack cf nm config =
     (case (if \<not> truthy (templateBody config) then getTemplateBody cf nm
            else (Inr (orEmpty (templateBody config)), cf)) of
        (Inl e, cf1) \<Rightarrow> (Inl e, cf1)
      | (Inr body, cf1) \<Rightarrow>
          (let command = updateStackInput nm config body;
               cf2 = cf1\<lparr>sent := sent cf1 @ [UpdateStackCommand command]\<rparr>
           in case updateStackReply cf1 command of
                Inl e \<Rightarrow> (Inl e, cf2)
              | Inr stackId \<Rightarrow> (Inr (orEmpty stackId), cf2)))"

section \<open>The memoized outputs\<close>

fun setOutput :: "Output \<Rightarrow> (string \<times> string) list \<Rightarrow> (string \<times> string) list" where
  "setOutput out m =
     (case (OutputKey out, OutputValue out) of
        (Some k, Some v) \<Rightarrow> (if k \<noteq> [] \<and> v \<noteq> [] then AList.update k v m else m)
      | _ \<Rightarrow> m)"

text \<open>
  \<open>getOutputs\<close>: the request is sent first; when it throws, the map is as it was.
  Otherwise the map is cleared and filled from every stack of the response.
\<close>

definition getOutputs ::
  "CloudFormationService \<Rightarrow> string \<Rightarrow> (error + (string \<times> string) list) \<times> CloudFormationService" where
  "getOutputs cf nm =
     (let response = describeStacksReply cf (describeStacksCalls cf) nm;
          cf' = cf\<lparr>describeStacksCalls := Suc (describeStacksCalls cf)\<rparr>
      in case response of
           Inl e \<Rightarrow> (Inl e, cf')
         | Inr stacks \<Rightarrow>
             (let m = fold (\<lambda>stack. fold setOutput (Outputs stack)) stacks []
              in (Inr m, cf'\<lparr>outputs := m\<rparr>)))"

text \<open>The three getters differ in the key they read.\<close>

definition getDataApiUrl ::
  "CloudFormationService \<Rightarrow> string \<Rightarrow> (error + string) \<times> CloudFormationService" where
  "getDataApiUrl cf nm =
     (if length (outputs cf) = 0 then
        (case getOutputs cf nm of
           (Inl e, cf') \<Rightarrow> (Inl e, cf')
         | (Inr m, cf') \<Rightarrow> (Inr (orEmpty (map_of (outputs cf') ''ClapDataApiURL'')), cf'))
      else (Inr (orEmpty (map_of (outputs cf) ''ClapDataApiURL'')), cf))"

definition getLicenseApiUrl ::
  "CloudFormationService \<Rightarrow> string \<Rightarrow> (error + string) \<times> CloudFormationService" where
  "getLicenseApiUrl cf nm =
     (if length (outputs cf) = 0 then
        (case getOutputs cf nm of
           (Inl e, cf') \<Rightarrow> (Inl e, cf')
         | (Inr m, cf') \<Rightarrow> (Inr (orEmpty (map_of (outputs cf') ''ClapLicenseApiURL'')), cf'))
      else (Inr (orEmpty (map_of (outputs cf) ''ClapLicenseApiURL'')), cf))"

definition getInitLambdaName ::
  "CloudFormationService \<Rightarrow> string \<Rightarrow> (error + string) \<times> CloudFormationService" where
  "getInitLambdaName cf nm =
     (if length (outputs cf) = 0 then
        (case getOutputs cf nm of
           (Inl e, cf') \<Rightarrow> (Inl e, cf')
         | (Inr m, cf') \<Rightarrow> (Inr (orEmpty (map_of (outputs cf') ''ClapDBInitLambda'')), cf'))
      else (Inr (orEmpty (map_of (outputs cf) ''ClapDBInitLambda'')), cf))"

section \<open>The artifact store\<close>

text \<open>
  The S3 service: the reply of the store to a \<open>GetObject\<close> on a bucket and a key
  (the body as text, or an error), and the requests sent so far, oldest first.
\<close>

record S3Service =
  getObjectReply :: "string \<Rightarrow> string \<Rightarrow> error + string option"
  getObjectCalls :: "(string \<times> string) list"

text \<open>
  \<open>String.prototype.trim\<close>, on strings whose characters are code units below 256:
  tab, line feed, vertical tab, form feed, carriage return, space and no-break space
  are the white space among them.
\<close>

definition isWhiteSpace :: "char \<Rightarrow> bool" where
  "isWhiteSpace c =
     (c \<in> set [CHR 0x09, CHR 0x0A, CHR 0x0B, CHR 0x0C, CHR 0x0D, CHR 0x20, CHR 0xA0])"

definition trim :: "string \<Rightarrow> string" where
  "trim s = rev (dropWhile isWhiteSpace (rev (dropWhile isWhiteSpace s)))"

definition readObject :: "S3Service \<Rightarrow> string \<Rightarrow> string \<Rightarrow> (error + string) \<times> S3Service" where
  "readObject store bucket key =
     (let store' = store\<lparr>getObjectCalls := getObjectCalls store @ [(bucket, key)]\<rparr>
      in case getObjectReply store bucket key of
           Inl e \<Rightarrow> (Inl e, store')
         | Inr body \<Rightarrow> (Inr (orEmpty body), store'))"

definition getLatestTag :: "S3Service \<Rightarrow> string \<Rightarrow> (error + string) \<times> S3Service" where
  "getLatestTag store bucket =
     (case readObject store bucket ''LATEST_TAG'' of
        (Inl e, store') \<Rightarrow> (Inl (Error (''Failed to get latest tag from bucket '' @ bucket)), store')
      | (Inr content, store') \<Rightarrow> (Inr (trim content), store'))"

definition getLatestHash :: "S3Service \<Rightarrow> string \<Rightarrow> (error + string) \<times> S3Service" where
  "getLatestHash store bucket =
     (case readObject store bucket ''LATEST_HASH'' of
        (Inl e, store') \<Rightarrow> (Inl (Error (''Failed to get latest hash from bucket '' @ bucket)), store')
      | (Inr content, store') \<Rightarrow> (Inr (trim content), store'))"

definition hasArtifact :: "S3Service \<Rightarrow> string \<Rightarrow> string \<Rightarrow> string \<Rightarrow> bool \<times> S3Service" where
  "hasArtifact store bucket version archName =
     (let key = version @ ''/'' @ archName @ ''/bootstrap.zip'';
          store' = store\<lparr>getObjectCalls := getObjectCalls store @ [(bucket, key)]\<rparr>
      in case getObjectReply store bucket key of
           Inl e \<Rightarrow> (False, store')
         | Inr body \<Rightarrow> (True, store'))"

section \<open>The provider: version resolution, deploy and update\<close>

definition getArtifactsBucket :: "string \<Rightarrow> string" where
  "getArtifactsBucket r = ''clapdb-pkgs-'' @ r"

record AWSCloudProvider =
  region :: string
  s3 :: S3Service
  cloudformation :: CloudFormationService

definition deployService ::
  "AWSCloudProvider \<Rightarrow> string \<Rightarrow> DeployConfig \<Rightarrow> (error + string) \<times> AWSCloudProvider" where
  "deployService p nm config =
     (let bucket = (case artifactsBucket config of
                      None \<Rightarrow> getArtifactsBucket (region p) | Some b \<Rightarrow> b)
      in case (if \<not> truthy (clapdbVersion config) then getLatestTag (s3 p) bucket
               else if clapdbVersion config = Some ''latest'' then getLatestHash (s3 p) bucket
               else (case hasArtifact (s3 p) bucket (orEmpty (clapdbVersion config))
                            (Arch_string (arch config)) of
                       (False, store') \<Rightarrow> (Inl (Error ''Invalid version''), store')
                     | (True, store') \<Rightarrow> (Inr (orEmpty (clapdbVersion config)), store'))) of
           (Inl e, store') \<Rightarrow> (Inl e, p\<lparr>s3 := store'\<rparr>)
         | (Inr version, store') \<Rightarrow>
             (case createStack (cloudformation p) nm
                     (config\<lparr>clapdbVersion := Some version, artifactsBucket := Some bucket\<rparr>) of
                (r, cf') \<Rightarrow> (r, p\<lparr>s3 := store', cloudformation := cf'\<rparr>)))"

definition updateService ::
  "AWSCloudProvider \<Rightarrow> string \<Rightarrow> DeployConfig \<Rightarrow> (error + string) \<times> AWSCloudProvider" where
  "updateService p nm config =
     (let bucket = (case artifactsBucket config of
                      None \<Rightarrow> getArtifactsBucket (region p) | Some b \<Rightarrow> b)
      in case (if \<not> truthy (clapdbVersion config) then getLatestTag (s3 p) bucket
               else if clapdbVersion config = Some ''latest'' then getLatestHash (s3 p) bucket
               else (case hasArtifact (s3 p) bucket (orEmpty (clapdbVersion config))
                            (Arch_string (arch config)) of
                       (False, store') \<Rightarrow>
                         (Inl (Error ''Artifact not found, check the version/commit''), store')
                     | (True, store') \<Rightarrow> (Inr (orEmpty (clapdbVersion config)), store'))) of
           (Inl e, store') \<Rightarrow> (Inl e, p\<lparr>s3 := store'\<rparr>)
         | (Inr version, store') \<Rightarrow>
             (case updateStack (cloudformation p) nm
                     (config\<lparr>clapdbVersion := Some version, artifactsBucket := Some bucket\<rparr>) of
                (r, cf') \<Rightarrow> (r, p\<lparr>s3 := store', cloudformation := cf'\<rparr>)))"

text \<open>
  The configuration the \<open>update\<close> command builds from its options (commander gives
  the value of an option as a string, or nothing when the option is absent).
  \<open>Number.parseInt\<close> is a parameter.
\<close>

record UpdateOptions =
  optLambdaMemorySize :: "string option"
  optDispatcherMemorySize :: "string option"
  optReducerMemorySize :: "string option"
  optWorkerMemorySize :: "string option"
  optLogging :: "bool option"
  optCommit :: "string option"
  optUpdateTemplate :: "bool option"

definition updateCommandConfig ::
  "(string \<Rightarrow> number) \<Rightarrow> string \<Rightarrow> string \<Rightarrow> UpdateOptions \<Rightarrow> DeployConfig" where
  "updateCommandConfig parseInt r nm options =
     \<lparr>stackName = nm,
      arch = x86_64,
      lambdaMemorySize =
        (if truthy (optLambdaMemorySize options)
         then parseInt (orEmpty (optLambdaMemorySize options)) else Number ''3008''),
      dispatcherMemorySize =
        (if truthy (optDispatcherMemorySize options)
         then parseInt (orEmpty (optDispatcherMemorySize options)) else Number ''3008''),
      reducerMemorySize =
        (if truthy (optReducerMemorySize options)
         then parseInt (orEmpty (optReducerMemorySize options)) else Number ''3008''),
      workerMemorySize =
        (if truthy (optWorkerMemorySize options)
         then parseInt (orEmpty (optWorkerMemorySize options)) else Number ''3008''),
      enablePrivateVpc = False,
      enablePrivateEndpoint = False,
      enableLogging = (case optLogging options of None \<Rightarrow> False | Some b \<Rightarrow> b),
      clapdbVersion = optCommit options,
      artifactsBucket = Some (getArtifactsBucket r),
      templateBody = None,
      updateBuiltinTemplate = (case optUpdateTemplate options of None \<Rightarrow> False | Some b \<Rightarrow> b)\<rparr>"

section \<open>The provider registry\<close>

text \<open>
  \<open>providerFactories\<close> is a \<open>Map\<close>: an association list in insertion order, where
  setting a key that is present replaces its value in place. A factory takes a
  profile and gives a provider or throws. \<open>String.prototype.toLowerCase\<close> is a
  parameter of the two functions that call it.
\<close>

fun join :: "string \<Rightarrow> string list \<Rightarrow> string" where
  "join sep [] = []"
| "join sep [x] = x"
| "join sep (x # y # ys) = x @ sep @ join sep (y # ys)"

definition registerCloudProvider ::
  "(string \<Rightarrow> string) \<Rightarrow> (string \<times> (string \<Rightarrow> error + 'p)) list \<Rightarrow> string \<Rightarrow>
     (string \<Rightarrow> error + 'p) \<Rightarrow> (string \<times> (string \<Rightarrow> error + 'p)) list" where
  "registerCloudProvider toLowerCase providerFactories nm factory =
     AList.update (toLowerCase nm) factory providerFactories"

definition createCloudProvider ::
  "(string \<Rightarrow> string) \<Rightarrow> (string \<times> (string \<Rightarrow> error + 'p)) list \<Rightarrow> string \<Rightarrow> string \<Rightarrow>
     error + 'p" where
  "createCloudProvider toLowerCase providerFactories nm profile =
     (case map_of providerFactories (toLowerCase nm) of
        None \<Rightarrow>
          (let available = join '', '' (map fst providerFactories)
           in Inl (Error (''Unknown cloud provider: '' @ nm @ ''. Available: ''
                          @ (if available = [] then ''none'' else available))))
      | Some factory \<Rightarrow> factory profile)"

definition getRegisteredProviders :: "(string \<times> (string \<Rightarrow> error + 'p)) list \<Rightarrow> string list" where
  "getRegisteredProviders providerFactories = map fst providerFactories"

section \<open>Auxiliary definitions for the provider\<close>

text \<open>The bucket both services resolve the version in.\<close>

definition bucketOf :: "AWSCloudProvider \<Rightarrow> DeployConfig \<Rightarrow> string" where
  "bucketOf p config =
     (case artifactsBucket config of None \<Rightarrow> getArtifactsBucket (region p) | Some b \<Rightarrow> b)"

text \<open>
  The version \<open>updateService\<close> resolves a configuration to: the store's latest tag
  for an absent or empty token, its latest hash for \<open>latest\<close>, and any other
  token itself when the store has its package. The template body \<open>updateStack\<close>
  submits: the configuration's when it has one, else the one the engine returns
  for the stack.
\<close>

definition resolvedVersion :: "AWSCloudProvider \<Rightarrow> DeployConfig \<Rightarrow> string \<Rightarrow> bool" where
  "resolvedVersion p config version =
     (if \<not> truthy (clapdbVersion config)
        then fst (getLatestTag (s3 p) (bucketOf p config)) = Inr version
      else if clapdbVersion config = Some ''latest''
        then fst (getLatestHash (s3 p) (bucketOf p config)) = Inr version
      else clapdbVersion config = Some version
           \<and> fst (hasArtifact (s3 p) (bucketOf p config) version (Arch_string (arch config))))"

definition submittedBody :: "CloudFormationService \<Rightarrow> string \<Rightarrow> DeployConfig \<Rightarrow> string \<Rightarrow> bool" where
  "submittedBody cf nm config body =
     (if \<not> truthy (templateBody config) then fst (getTemplateBody cf nm) = Inr body
      else templateBody config = Some body)"

text \<open>
  Stores and a provider to run the services on: a store that holds the tag marker
  \<open>v3\<close>, a hash marker and the \<open>x86_64\<close> package of \<open>v3\<close>, and a store that
  refuses every request. The configuration is the one of the schema's defaults.
\<close>

definition storeWith :: "(string \<Rightarrow> string \<Rightarrow> error + string option) \<Rightarrow> S3Service" where
  "storeWith reply = \<lparr>getObjectReply = reply, getObjectCalls = []\<rparr>"

definition releases :: "string \<Rightarrow> string \<Rightarrow> error + string option" where
  "releases bucket key =
     (if key = ''LATEST_TAG'' then Inr (Some (''v3'' @ [CHR 0x0A]))
      else if key = ''LATEST_HASH'' then Inr (Some ''0a1b2c3'')
      else if key = ''v3/x86_64/bootstrap.zip'' then Inr None
      else Inl (Error ''NoSuchKey''))"

definition denied :: "string \<Rightarrow> string \<Rightarrow> error + string option" where
  "denied bucket key = Inl (Error ''AccessDenied'')"

definition providerWith :: "(string \<Rightarrow> string \<Rightarrow> error + string option) \<Rightarrow> AWSCloudProvider" where
  "providerWith reply =
     \<lparr>region = ''us-east-1'', s3 = storeWith reply,
      cloudformation = serviceWith (scripted [''CREATE_COMPLETE''])\<rparr>"

definition defaultConfig :: DeployConfig where
  "defaultConfig =
     \<lparr>stackName = ''clapdb-stack'', arch = x86_64, lambdaMemorySize = Number ''3008'',
      dispatcherMemorySize = Number ''3008'', reducerMemorySize = Number ''3008'',
      workerMemorySize = Number ''3008'', enablePrivateVpc = False, enablePrivateEndpoint = False,
      enableLogging = False, clapdbVersion = None, artifactsBucket = None,
      templateBody = None, updateBuiltinTemplate = False\<rparr>"

section \<open>Auxiliary definitions for requests, the registry and the outputs\<close>

text \<open>
  The parameter of a request with a given key, and the parameter lists of the
  update requests among the commands sent.
\<close>

definition findParameter :: "string \<Rightarrow> Parameter list \<Rightarrow> Parameter option" where
  "findParameter k ps = find (\<lambda>q. ParameterKey q = k) ps"

fun updateParameters :: "Command list \<Rightarrow> Parameter list list" where
  "updateParameters [] = []"
| "updateParameters (UpdateStackCommand u # cs) = Parameters u # updateParameters cs"
| "updateParameters (c # cs) = updateParameters cs"

text \<open>The \<open>update\<close> command run with the stack name as its only option.\<close>

definition noOptions :: UpdateOptions where
  "noOptions =
     \<lparr>optLambdaMemorySize = None, optDispatcherMemorySize = None,
      optReducerMemorySize = None, optWorkerMemorySize = None, optLogging = None,
      optCommit = None, optUpdateTemplate = None\<rparr>"

text \<open>
  \<open>toLowerCase\<close> on strings whose characters are code units below 256: the
  letters \<open>A\<close> to \<open>Z\<close> and the capitals from \<open>0xC0\<close> to \<open>0xDE\<close> (the
  multiplication sign \<open>0xD7\<close> apart) move up by 32, every other code unit stays.
\<close>

definition lowerLatin1Char :: "char \<Rightarrow> char" where
  "lowerLatin1Char c =
     (case map_of
        (zip (''ABCDEFGHIJKLMNOPQRSTUVWXYZ''
              @ [CHR 0xC0, CHR 0xC1, CHR 0xC2, CHR 0xC3, CHR 0xC4, CHR 0xC5, CHR 0xC6, CHR 0xC7,
                 CHR 0xC8, CHR 0xC9, CHR 0xCA, CHR 0xCB, CHR 0xCC, CHR 0xCD, CHR 0xCE, CHR 0xCF,
                 CHR 0xD0, CHR 0xD1, CHR 0xD2, CHR 0xD3, CHR 0xD4, CHR 0xD5, CHR 0xD6,
                 CHR 0xD8, CHR 0xD9, CHR 0xDA, CHR 0xDB, CHR 0xDC, CHR 0xDD, CHR 0xDE])
             (''abcdefghijklmnopqrstuvwxyz''
              @ [CHR 0xE0, CHR 0xE1, CHR 0xE2, CHR 0xE3, CHR 0xE4, CHR 0xE5, CHR 0xE6, CHR 0xE7,
                 CHR 0xE8, CHR 0xE9, CHR 0xEA, CHR 0xEB, CHR 0xEC, CHR 0xED, CHR 0xEE, CHR 0xEF,
                 CHR 0xF0, CHR 0xF1, CHR 0xF2, CHR 0xF3, CHR 0xF4, CHR 0xF5, CHR 0xF6,
                 CHR 0xF8, CHR 0xF9, CHR 0xFA, CHR 0xFB, CHR 0xFC, CHR 0xFD, CHR 0xFE])) c of
        None \<Rightarrow> c
      | Some l \<Rightarrow> l)"

definition lowerLatin1 :: "string \<Rightarrow> string" where
  "lowerLatin1 s = map lowerLatin1Char s"

text \<open>Two factories; a provider is represented by a string.\<close>

definition awsFactory :: "string \<Rightarrow> error + string" where
  "awsFactory profile = Inr (''aws:'' @ profile)"

definition mockFactory :: "string \<Rightarrow> error + string" where
  "mockFactory profile = Inr (''mock:'' @ profile)"

text \<open>
  The outputs map a response fills, a stack that reports a data API URL, and a
  service whose map holds an older URL than the one the engine now reports.
\<close>

definition readOutputs :: "Stack list \<Rightarrow> (string \<times> string) list" where
  "readOutputs stacks = fold (\<lambda>stack. fold setOutput (Outputs stack)) stacks []"

definition deployed :: "string \<Rightarrow> Stack" where
  "deployed url =
     \<lparr>StackStatus = Some ''UPDATE_COMPLETE'',
      Outputs = [\<lparr>OutputKey = Some ''ClapDataApiURL'', OutputValue = Some url\<rparr>,
                 \<lparr>OutputKey = Some ''ClapDBInitLambda'', OutputValue = Some ''clapdb-init''\<rparr>]\<rparr>"

definition cached :: CloudFormationService where
  "cached = (serviceWith (\<lambda>i nm. Inr [deployed ''https://new.example'']))
              \<lparr>outputs := [(''ClapDataApiURL'', ''https://old.example'')]\<rparr>"

section \<open>Properties of the watchers\<close>

subsection \<open>One status query, one poll\<close>

lemma getStackStatus_Some:
  "replyStatus (describeStacksReply cf (describeStacksCalls cf) nm) = Some s \<Longrightarrow>
   getStackStatus cf nm = (Inr s, cf\<lparr>describeStacksCalls := Suc (describeStacksCalls cf)\<rparr>)"
  by (cases "describeStacksReply cf (describeStacksCalls cf) nm" rule: replyStatus.cases)
     (simp_all add: getStackStatus_def)

lemma getStackStatus_None:
  "replyStatus (describeStacksReply cf (describeStacksCalls cf) nm) = None \<Longrightarrow>
   \<exists>e. getStackStatus cf nm = (Inl e, cf\<lparr>describeStacksCalls := Suc (describeStacksCalls cf)\<rparr>)"
  by (cases "describeStacksReply cf (describeStacksCalls cf) nm" rule: replyStatus.cases)
     (simp_all add: getStackStatus_def)

lemma showFirst_frame:
  "showFirstProcessedResource cf nm sp action = (b, cf', sp') \<Longrightarrow>
   describeStacksReply cf' = describeStacksReply cf \<and>
   describeStacksCalls cf' = describeStacksCalls cf \<and>
   stopCalls sp' = stopCalls sp"
  by (auto simp: showFirstProcessedResource_def getResourcesStatus_def Let_def
           split: sum.splits option.splits prod.splits)

lemma watchLoop_step:
  assumes "replyStatus (describeStacksReply cf (describeStacksCalls cf) nm) = Some s"
    and "s \<notin> set terminalStates"
  shows "\<exists>cf' sp'. (\<forall>fuel. watchLoop (Suc fuel) cf nm sp action = watchLoop fuel cf' nm sp' action)
     \<and> describeStacksReply cf' = describeStacksReply cf
     \<and> describeStacksCalls cf' = Suc (describeStacksCalls cf)
     \<and> stopCalls sp' = stopCalls sp"
proof -
  let ?cf1 = "cf\<lparr>describeStacksCalls := Suc (describeStacksCalls cf)\<rparr>"
  obtain b cf2 sp2 where sh: "showFirstProcessedResource ?cf1 nm sp action = (b, cf2, sp2)"
    by (cases "showFirstProcessedResource ?cf1 nm sp action") auto
  from showFirst_frame[OF sh] have fr: "describeStacksReply cf2 = describeStacksReply cf"
    "describeStacksCalls cf2 = Suc (describeStacksCalls cf)" "stopCalls sp2 = stopCalls sp"
    by simp_all
  have "\<forall>fuel. watchLoop (Suc fuel) cf nm sp action = watchLoop fuel cf2 nm sp2 action"
    using getStackStatus_Some[OF assms(1)] assms(2) sh
    by (simp add: isStackDeployCompleted_def)
  with fr show ?thesis by blast
qed

lemma watchLoop_inProgress:
  "inProgress (describeStacksReply cf) nm (describeStacksCalls cf) k \<Longrightarrow>
   \<exists>cf' sp'. (\<forall>fuel. watchLoop (k + fuel) cf nm sp action = watchLoop fuel cf' nm sp' action)
     \<and> describeStacksReply cf' = describeStacksReply cf
     \<and> describeStacksCalls cf' = describeStacksCalls cf + k
     \<and> stopCalls sp' = stopCalls sp"
proof (induction k arbitrary: cf sp)
  case 0
  then show ?case by auto
next
  case (Suc k)
  from Suc.prems obtain s where
    s: "replyStatus (describeStacksReply cf (describeStacksCalls cf) nm) = Some s"
       "s \<notin> set terminalStates"
    and rest: "inProgress (describeStacksReply cf) nm (Suc (describeStacksCalls cf)) k"
    by (auto split: option.splits)
  from watchLoop_step[OF s, of sp action] obtain cf1 sp1 where
    st: "\<forall>fuel. watchLoop (Suc fuel) cf nm sp action = watchLoop fuel cf1 nm sp1 action"
      "describeStacksReply cf1 = describeStacksReply cf"
      "describeStacksCalls cf1 = Suc (describeStacksCalls cf)"
      "stopCalls sp1 = stopCalls sp"
    by blast
  from rest st have "inProgress (describeStacksReply cf1) nm (describeStacksCalls cf1) k"
    by simp
  from Suc.IH[OF this, of sp1] obtain cf2 sp2 where
    ih: "\<forall>fuel. watchLoop (k + fuel) cf1 nm sp1 action = watchLoop fuel cf2 nm sp2 action"
      "describeStacksReply cf2 = describeStacksReply cf1"
      "describeStacksCalls cf2 = describeStacksCalls cf1 + k"
      "stopCalls sp2 = stopCalls sp1"
    by blast
  have "\<forall>fuel. watchLoop (Suc k + fuel) cf nm sp action = watchLoop fuel cf2 nm sp2 action"
    using st(1) ih(1) by simp
  with st ih show ?case by (intro exI[of _ cf2] exI[of _ sp2]) simp
qed

lemma watchLoop_stopCalls:
  "watchLoop fuel cf nm sp action = Some (r, cf', sp') \<Longrightarrow> stopCalls sp' = stopCalls sp"
proof (induction fuel arbitrary: cf sp)
  case 0
  then show ?case by simp
next
  case (Suc fuel)
  show ?case
  proof (cases "isStackDeployCompleted cf nm")
    case (Pair res cf1)
    show ?thesis
    proof (cases res)
      case (Inl e)
      with Pair Suc.prems show ?thesis by (auto split: if_splits)
    next
      case (Inr completed)
      show ?thesis
      proof (cases completed)
        case True
        with Pair Inr Suc.prems show ?thesis
          by (auto split: if_splits sum.splits prod.splits)
      next
        case False
        obtain b cf2 sp2 where sh: "showFirstProcessedResource cf1 nm sp action = (b, cf2, sp2)"
          by (cases "showFirstProcessedResource cf1 nm sp action") auto
        with Pair Inr False Suc.prems
        have "watchLoop fuel cf2 nm sp2 action = Some (r, cf', sp')" by simp
        from Suc.IH[OF this] showFirst_frame[OF sh] show ?thesis by simp
      qed
    qed
  qed
qed

lemma watchLoop_completed:
  assumes "replyStatus (describeStacksReply cf (describeStacksCalls cf) nm) = Some s"
    and "s \<in> set terminalStates"
    and "replyStatus (describeStacksReply cf (Suc (describeStacksCalls cf)) nm) = Some s'"
  shows "watchLoop (Suc fuel) cf nm sp action =
     Some (if s' \<in> set failedStates then Inl (Error (messages action)) else Inr (),
           cf\<lparr>describeStacksCalls := Suc (Suc (describeStacksCalls cf))\<rparr>, sp)"
proof -
  let ?cf1 = "cf\<lparr>describeStacksCalls := Suc (describeStacksCalls cf)\<rparr>"
  have 1: "getStackStatus cf nm = (Inr s, ?cf1)"
    using getStackStatus_Some[OF assms(1)] .
  have "replyStatus (describeStacksReply ?cf1 (describeStacksCalls ?cf1) nm) = Some s'"
    using assms(3) by simp
  from getStackStatus_Some[OF this]
  have 2: "getStackStatus ?cf1 nm = (Inr s', cf\<lparr>describeStacksCalls := Suc (Suc (describeStacksCalls cf))\<rparr>)"
    by simp
  show ?thesis
    using 1 2 assms(2) by (simp add: isStackDeployCompleted_def isStackDeployFailed_def)
qed

lemma watchLoop_query_throws:
  assumes "replyStatus (describeStacksReply cf (describeStacksCalls cf) nm) = None"
  shows "watchLoop (Suc fuel) cf nm sp action =
     Some (if action = Delete then Inr () else Inl checkFailed,
           cf\<lparr>describeStacksCalls := Suc (describeStacksCalls cf)\<rparr>, sp)"
  using getStackStatus_None[OF assms] by (auto simp: isStackDeployCompleted_def)

lemma watchLoop_failed_check_throws:
  assumes "replyStatus (describeStacksReply cf (describeStacksCalls cf) nm) = Some s"
    and "s \<in> set terminalStates"
    and "replyStatus (describeStacksReply cf (Suc (describeStacksCalls cf)) nm) = None"
  shows "watchLoop (Suc fuel) cf nm sp action =
     Some (if action = Delete then Inr () else Inl checkFailed,
           cf\<lparr>describeStacksCalls := Suc (Suc (describeStacksCalls cf))\<rparr>, sp)"
proof -
  let ?cf1 = "cf\<lparr>describeStacksCalls := Suc (describeStacksCalls cf)\<rparr>"
  have 1: "getStackStatus cf nm = (Inr s, ?cf1)"
    using getStackStatus_Some[OF assms(1)] .
  have "replyStatus (describeStacksReply ?cf1 (describeStacksCalls ?cf1) nm) = None"
    using assms(3) by simp
  from getStackStatus_None[OF this]
  obtain e where 2: "getStackStatus ?cf1 nm = (Inl e, cf\<lparr>describeStacksCalls := Suc (Suc (describeStacksCalls cf))\<rparr>)"
    by auto
  show ?thesis
    using 1 2 assms(2) by (simp add: isStackDeployCompleted_def isStackDeployFailed_def)
qed

lemma serviceWith_sel:
  "describeStacksReply (serviceWith reply) = reply"
  "describeStacksCalls (serviceWith reply) = 0"
  by (simp_all add: serviceWith_def)

subsection \<open>The rollback status\<close>

text \<open>
  C1, as the spec states it, fails: on a stack whose status is
  \<open>UPDATE_ROLLBACK_COMPLETE\<close> the watcher of an update does not stop with success,
  it throws the update's failure message.
\<close>

theorem watch_rollback_complete_counterexample:
  "map_option fst
     (watchService (Suc 0) (serviceWith (scripted [''UPDATE_ROLLBACK_COMPLETE'']))
        ''clapdb-stack'' spinner0 Update)
   = Some (Inl (Error ''update service failed, you should check update detail''))"
  by (simp add: watchService_def isStackDeployCompleted_def isStackDeployFailed_def
        getStackStatus_def terminalStates_def failedStates_def serviceWith_def
        stackWithStatus_def scripted_def)

text \<open>
  C1, amended: for each of the three actions, after any number \<open>k\<close> of polls that
  saw the stack in progress, when both status queries of the next poll observe
  \<open>UPDATE_ROLLBACK_COMPLETE\<close>, the watcher stops with the failure message of the
  action. The status is in both classification sets; the Completed check runs
  first and lets it through to the Failed check, whose answer decides. The watcher
  has then sent \<open>k + 2\<close> status queries and stopped the spinner once.
\<close>

theorem watch_rollback_complete_fails:
  assumes "inProgress (describeStacksReply cf) nm (describeStacksCalls cf) k"
    and "replyStatus (describeStacksReply cf (describeStacksCalls cf + k) nm)
             = Some ''UPDATE_ROLLBACK_COMPLETE''"
    and "replyStatus (describeStacksReply cf (Suc (describeStacksCalls cf + k)) nm)
             = Some ''UPDATE_ROLLBACK_COMPLETE''"
  shows "''UPDATE_ROLLBACK_COMPLETE'' \<in> set terminalStates
     \<and> ''UPDATE_ROLLBACK_COMPLETE'' \<in> set failedStates
     \<and> (\<exists>cf' sp'.
          watchService (k + Suc fuel) cf nm sp action =
            Some (Inl (Error (messages action)), cf', sp')
          \<and> describeStacksCalls cf' = describeStacksCalls cf + k + 2
          \<and> describeStacksReply cf' = describeStacksReply cf
          \<and> stopCalls sp' = Suc (stopCalls sp))"
proof -
  have t: "''UPDATE_ROLLBACK_COMPLETE'' \<in> set terminalStates"
    by (simp add: terminalStates_def)
  have f: "''UPDATE_ROLLBACK_COMPLETE'' \<in> set failedStates"
    by (simp add: failedStates_def)
  from watchLoop_inProgress[OF assms(1), of sp action] obtain cf2 sp2 where
    st: "\<forall>fuel. watchLoop (k + fuel) cf nm sp action = watchLoop fuel cf2 nm sp2 action"
      "describeStacksReply cf2 = describeStacksReply cf"
      "describeStacksCalls cf2 = describeStacksCalls cf + k"
      "stopCalls sp2 = stopCalls sp"
    by blast
  have c1: "replyStatus (describeStacksReply cf2 (describeStacksCalls cf2) nm)
              = Some ''UPDATE_ROLLBACK_COMPLETE''"
    using st assms(2) by simp
  have c2: "replyStatus (describeStacksReply cf2 (Suc (describeStacksCalls cf2)) nm)
              = Some ''UPDATE_ROLLBACK_COMPLETE''"
    using st assms(3) by simp
  have "watchLoop (k + Suc fuel) cf nm sp action = watchLoop (Suc fuel) cf2 nm sp2 action"
    using st(1) by blast
  also have "\<dots> = Some (Inl (Error (messages action)),
                   cf2\<lparr>describeStacksCalls := Suc (Suc (describeStacksCalls cf2))\<rparr>, sp2)"
    using watchLoop_completed[OF c1 t c2, of fuel sp2 action] f by simp
  finally have "\<exists>cf' sp'.
          watchService (k + Suc fuel) cf nm sp action =
            Some (Inl (Error (messages action)), cf', sp')
          \<and> describeStacksCalls cf' = describeStacksCalls cf + k + 2
          \<and> describeStacksReply cf' = describeStacksReply cf
          \<and> stopCalls sp' = Suc (stopCalls sp)"
    using st by (simp add: watchService_def)
  with t f show ?thesis by blast
qed

theorem watch_rollback_complete_fails_witness:
  "inProgress (scripted [''UPDATE_IN_PROGRESS'', ''UPDATE_ROLLBACK_COMPLETE'']) ''clapdb-stack'' 0 1
   \<and> replyStatus (scripted [''UPDATE_IN_PROGRESS'', ''UPDATE_ROLLBACK_COMPLETE''] 1 ''clapdb-stack'')
     = Some ''UPDATE_ROLLBACK_COMPLETE''
   \<and> replyStatus (scripted [''UPDATE_IN_PROGRESS'', ''UPDATE_ROLLBACK_COMPLETE''] 2 ''clapdb-stack'')
     = Some ''UPDATE_ROLLBACK_COMPLETE''
   \<and> (\<exists>cf' sp'.
        watchService 2
          (serviceWith (scripted [''UPDATE_IN_PROGRESS'', ''UPDATE_ROLLBACK_COMPLETE'']))
          ''clapdb-stack'' spinner0 Update
        = Some (Inl (Error ''update service failed, you should check update detail''), cf', sp')
        \<and> describeStacksCalls cf' = 3 \<and> stopCalls sp' = Suc (stopCalls spinner0))"
proof -
  let ?r = "scripted [''UPDATE_IN_PROGRESS'', ''UPDATE_ROLLBACK_COMPLETE'']"
  let ?cf = "serviceWith ?r"
  have h0: "inProgress (describeStacksReply ?cf) ''clapdb-stack'' (describeStacksCalls ?cf) (Suc 0)"
    by (simp add: serviceWith_sel scripted_def stackWithStatus_def terminalStates_def)
  have h1: "replyStatus (describeStacksReply ?cf (describeStacksCalls ?cf + Suc 0) ''clapdb-stack'')
              = Some ''UPDATE_ROLLBACK_COMPLETE''"
    by (simp add: serviceWith_sel scripted_def stackWithStatus_def)
  have h2: "replyStatus (describeStacksReply ?cf (Suc (describeStacksCalls ?cf + Suc 0)) ''clapdb-stack'')
              = Some ''UPDATE_ROLLBACK_COMPLETE''"
    by (simp add: serviceWith_sel scripted_def stackWithStatus_def)
  have a: "inProgress ?r ''clapdb-stack'' 0 1"
    using h0 by (simp add: serviceWith_sel)
  have b: "replyStatus (?r 1 ''clapdb-stack'') = Some ''UPDATE_ROLLBACK_COMPLETE''"
    using h1 by (simp add: serviceWith_sel)
  have c: "replyStatus (?r 2 ''clapdb-stack'') = Some ''UPDATE_ROLLBACK_COMPLETE''"
    using h2 by (simp add: serviceWith_sel numeral_2_eq_2)
  have d: "\<exists>cf' sp'.
        watchService 2 ?cf ''clapdb-stack'' spinner0 Update
        = Some (Inl (Error ''update service failed, you should check update detail''), cf', sp')
        \<and> describeStacksCalls cf' = 3 \<and> stopCalls sp' = Suc (stopCalls spinner0)"
    using watch_rollback_complete_fails[OF h0 h1 h2, of 0 spinner0 Update]
    by (auto simp: serviceWith_sel numeral_2_eq_2 numeral_3_eq_3)
  from a b c d show ?thesis by blast
qed

subsection \<open>The create scenario and the release of the spinner\<close>

text \<open>
  C2: a create is watched with the action \<open>Deploy\<close>. When the first two polls
  observe \<open>CREATE_IN_PROGRESS\<close> and the third observes \<open>CREATE_COMPLETE\<close> (at its
  Completed check and at its Failed check, so that four status queries are sent
  in all), the watcher is still polling after two iterations of its loop and
  stops in the third with success, the spinner stopped once. Whenever a watcher
  returns or throws, in any state and for any action, it has stopped the
  spinner exactly once.
\<close>

theorem watch_create_three_polls:
  assumes "replyStatus (describeStacksReply cf (describeStacksCalls cf) nm)
             = Some ''CREATE_IN_PROGRESS''"
    and "replyStatus (describeStacksReply cf (describeStacksCalls cf + 1) nm)
             = Some ''CREATE_IN_PROGRESS''"
    and "replyStatus (describeStacksReply cf (describeStacksCalls cf + 2) nm)
             = Some ''CREATE_COMPLETE''"
    and "replyStatus (describeStacksReply cf (describeStacksCalls cf + 3) nm)
             = Some ''CREATE_COMPLETE''"
  shows "watchService 2 cf nm sp Deploy = None
     \<and> (\<exists>cf' sp'. watchService (3 + fuel) cf nm sp Deploy = Some (Inr (), cf', sp')
           \<and> describeStacksCalls cf' = describeStacksCalls cf + 4
           \<and> stopCalls sp' = Suc (stopCalls sp))
     \<and> (\<forall>fuel0 cf0 nm0 sp0 action r cf1 sp1.
           watchService fuel0 cf0 nm0 sp0 action = Some (r, cf1, sp1)
           \<longrightarrow> stopCalls sp1 = Suc (stopCalls sp0))"
proof -
  have "inProgress (describeStacksReply cf) nm (describeStacksCalls cf) 2"
    using assms(1,2) by (simp add: numeral_2_eq_2 terminalStates_def)
  from watchLoop_inProgress[OF this, of sp Deploy] obtain cf2 sp2 where
    st: "\<forall>fuel. watchLoop (2 + fuel) cf nm sp Deploy = watchLoop fuel cf2 nm sp2 Deploy"
      "describeStacksReply cf2 = describeStacksReply cf"
      "describeStacksCalls cf2 = describeStacksCalls cf + 2"
      "stopCalls sp2 = stopCalls sp"
    by blast
  from st(1) have "watchLoop 2 cf nm sp Deploy = watchLoop 0 cf2 nm sp2 Deploy"
    by (metis add.right_neutral)
  then have a: "watchService 2 cf nm sp Deploy = None"
    by (simp add: watchService_def)
  have c1: "replyStatus (describeStacksReply cf2 (describeStacksCalls cf2) nm) = Some ''CREATE_COMPLETE''"
    using st assms(3) by simp
  have c2: "replyStatus (describeStacksReply cf2 (Suc (describeStacksCalls cf2)) nm) = Some ''CREATE_COMPLETE''"
    using st assms(4) by (simp add: numeral_3_eq_3)
  have t: "''CREATE_COMPLETE'' \<in> set terminalStates" by (simp add: terminalStates_def)
  have nf: "''CREATE_COMPLETE'' \<notin> set failedStates" by (simp add: failedStates_def)
  have "watchLoop (3 + fuel) cf nm sp Deploy = watchLoop (Suc fuel) cf2 nm sp2 Deploy"
    using st(1) by (metis add_Suc_right numeral_3_eq_3 numeral_2_eq_2 add_Suc)
  also have "\<dots> = Some (Inr (), cf2\<lparr>describeStacksCalls := Suc (Suc (describeStacksCalls cf2))\<rparr>, sp2)"
    using watchLoop_completed[OF c1 t c2, of fuel sp2 Deploy] nf by simp
  finally have b: "\<exists>cf' sp'. watchService (3 + fuel) cf nm sp Deploy = Some (Inr (), cf', sp')
           \<and> describeStacksCalls cf' = describeStacksCalls cf + 4
           \<and> stopCalls sp' = Suc (stopCalls sp)"
    using st by (simp add: watchService_def)
  have c: "\<forall>fuel0 cf0 nm0 sp0 action r cf1 sp1.
           watchService fuel0 cf0 nm0 sp0 action = Some (r, cf1, sp1)
           \<longrightarrow> stopCalls sp1 = Suc (stopCalls sp0)"
    by (auto simp: watchService_def split: option.splits dest: watchLoop_stopCalls)
  from a b c show ?thesis by blast
qed

theorem watch_create_three_polls_witness:
  "watchService 2
     (serviceWith (scripted [''CREATE_IN_PROGRESS'', ''CREATE_IN_PROGRESS'', ''CREATE_COMPLETE'']))
     ''clapdb-stack'' spinner0 Deploy = None
   \<and> (\<exists>cf' sp'.
        watchService 3
          (serviceWith (scripted [''CREATE_IN_PROGRESS'', ''CREATE_IN_PROGRESS'', ''CREATE_COMPLETE'']))
          ''clapdb-stack'' spinner0 Deploy = Some (Inr (), cf', sp')
        \<and> describeStacksCalls cf' = 4 \<and> stopCalls sp' = Suc (stopCalls spinner0))
   \<and> (\<exists>cf' sp'.
        watchService (Suc 0) (serviceWith throttled) ''clapdb-stack'' spinner0 Deploy
          = Some (Inl checkFailed, cf', sp')
        \<and> stopCalls sp' = Suc (stopCalls spinner0))"
proof -
  let ?cf = "serviceWith (scripted [''CREATE_IN_PROGRESS'', ''CREATE_IN_PROGRESS'', ''CREATE_COMPLETE''])"
  have h1: "replyStatus (describeStacksReply ?cf (describeStacksCalls ?cf) ''clapdb-stack'')
              = Some ''CREATE_IN_PROGRESS''"
    by (simp add: serviceWith_sel scripted_def stackWithStatus_def)
  have h2: "replyStatus (describeStacksReply ?cf (describeStacksCalls ?cf + 1) ''clapdb-stack'')
              = Some ''CREATE_IN_PROGRESS''"
    by (simp add: serviceWith_sel scripted_def stackWithStatus_def)
  have h3: "replyStatus (describeStacksReply ?cf (describeStacksCalls ?cf + 2) ''clapdb-stack'')
              = Some ''CREATE_COMPLETE''"
    by (simp add: serviceWith_sel scripted_def stackWithStatus_def)
  have h4: "replyStatus (describeStacksReply ?cf (describeStacksCalls ?cf + 3) ''clapdb-stack'')
              = Some ''CREATE_COMPLETE''"
    by (simp add: serviceWith_sel scripted_def stackWithStatus_def)
  note w = watch_create_three_polls[OF h1 h2 h3 h4, of spinner0 0]
  from w have a: "watchService 2 ?cf ''clapdb-stack'' spinner0 Deploy = None"
    by blast
  from w have b: "\<exists>cf' sp'. watchService 3 ?cf ''clapdb-stack'' spinner0 Deploy = Some (Inr (), cf', sp')
        \<and> describeStacksCalls cf' = 4 \<and> stopCalls sp' = Suc (stopCalls spinner0)"
    by (simp add: serviceWith_sel)
  obtain cf' sp' where
    t: "watchService (Suc 0) (serviceWith throttled) ''clapdb-stack'' spinner0 Deploy
          = Some (Inl checkFailed, cf', sp')"
    by (simp add: watchService_def isStackDeployCompleted_def getStackStatus_def
          serviceWith_def throttled_def)
  from w t have "stopCalls sp' = Suc (stopCalls spinner0)"
    by blast
  with t have c: "\<exists>cf' sp'.
        watchService (Suc 0) (serviceWith throttled) ''clapdb-stack'' spinner0 Deploy
          = Some (Inl checkFailed, cf', sp')
        \<and> stopCalls sp' = Suc (stopCalls spinner0)"
    by blast
  from a b c show ?thesis by blast
qed

subsection \<open>A status query that throws\<close>

text \<open>
  C4, as the spec states it, fails for a deploy: the status query throws
  \<open>Rate exceeded\<close>, and the error that leaves the watcher is another one.
\<close>

theorem watch_query_error_counterexample:
  "fst (getStackStatus (serviceWith throttled) ''clapdb-stack'') = Inl (Error ''Rate exceeded'')
   \<and> map_option fst (watchService (Suc 0) (serviceWith throttled) ''clapdb-stack'' spinner0 Deploy)
       = Some (Inl (Error ''Failed to check deployment status''))"
  by (simp add: watchService_def isStackDeployCompleted_def getStackStatus_def
        serviceWith_def throttled_def checkFailed_def)

text \<open>
  C4, amended: after any number \<open>k\<close> of polls that saw the stack in progress, if
  the next status query throws (the Completed check of the poll, or its Failed
  check after a completed status), the watcher stops there, having sent no further
  query and stopped the spinner once: with success when the action is delete; for
  a deploy or an update with the error \<open>Failed to check deployment status\<close>, which
  replaces the error of the query.
\<close>

theorem watch_status_query_throws:
  assumes "inProgress (describeStacksReply cf) nm (describeStacksCalls cf) k"
    and "queryThrows (describeStacksReply cf) nm (describeStacksCalls cf + k)
         \<or> failedCheckThrows (describeStacksReply cf) nm (describeStacksCalls cf + k)"
  shows "\<exists>cf' sp'.
     watchService (k + Suc fuel) cf nm sp action =
       Some (if action = Delete then Inr ()
             else Inl (Error ''Failed to check deployment status''), cf', sp')
     \<and> describeStacksCalls cf' =
         describeStacksCalls cf + k
           + (if queryThrows (describeStacksReply cf) nm (describeStacksCalls cf + k) then 1 else 2)
     \<and> stopCalls sp' = Suc (stopCalls sp)"
proof -
  from watchLoop_inProgress[OF assms(1), of sp action] obtain cf2 sp2 where
    st: "\<forall>fuel. watchLoop (k + fuel) cf nm sp action = watchLoop fuel cf2 nm sp2 action"
      "describeStacksReply cf2 = describeStacksReply cf"
      "describeStacksCalls cf2 = describeStacksCalls cf + k"
      "stopCalls sp2 = stopCalls sp"
    by blast
  have run: "watchLoop (k + Suc fuel) cf nm sp action = watchLoop (Suc fuel) cf2 nm sp2 action"
    using st(1) by blast
  show ?thesis
  proof (cases "queryThrows (describeStacksReply cf) nm (describeStacksCalls cf + k)")
    case True
    then have "replyStatus (describeStacksReply cf2 (describeStacksCalls cf2) nm) = None"
      using st by (simp add: queryThrows_def)
    from watchLoop_query_throws[OF this, of fuel sp2 action] run st True
    show ?thesis by (simp add: watchService_def checkFailed_def)
  next
    case False
    with assms(2) have "failedCheckThrows (describeStacksReply cf) nm (describeStacksCalls cf + k)"
      by simp
    then obtain s where
      s: "replyStatus (describeStacksReply cf2 (describeStacksCalls cf2) nm) = Some s"
         "s \<in> set terminalStates"
         "replyStatus (describeStacksReply cf2 (Suc (describeStacksCalls cf2)) nm) = None"
      using st by (auto simp: failedCheckThrows_def split: option.splits)
    from watchLoop_failed_check_throws[OF s, of fuel sp2 action] run st False
    show ?thesis by (simp add: watchService_def checkFailed_def)
  qed
qed

theorem watch_status_query_throws_witness:
  "inProgress vanishing ''clapdb-stack'' 0 1
   \<and> queryThrows vanishing ''clapdb-stack'' 1
   \<and> (\<exists>cf' sp'.
       watchService (Suc (Suc 0)) (serviceWith vanishing) ''clapdb-stack'' spinner0 Delete
         = Some (Inr (), cf', sp')
       \<and> describeStacksCalls cf' = 2 \<and> stopCalls sp' = Suc (stopCalls spinner0))"
proof -
  have h1: "inProgress (describeStacksReply (serviceWith vanishing)) ''clapdb-stack''
              (describeStacksCalls (serviceWith vanishing)) (Suc 0)"
    by (simp add: serviceWith_sel vanishing_def stackWithStatus_def terminalStates_def)
  have h2: "queryThrows (describeStacksReply (serviceWith vanishing)) ''clapdb-stack''
              (describeStacksCalls (serviceWith vanishing) + Suc 0)"
    by (simp add: serviceWith_sel vanishing_def queryThrows_def)
  have c1: "inProgress vanishing ''clapdb-stack'' 0 1"
    using h1 by (simp add: serviceWith_sel)
  have c2: "queryThrows vanishing ''clapdb-stack'' 1"
    using h2 by (simp add: serviceWith_sel)
  have c3: "\<exists>cf' sp'.
       watchService (Suc (Suc 0)) (serviceWith vanishing) ''clapdb-stack'' spinner0 Delete
         = Some (Inr (), cf', sp')
       \<and> describeStacksCalls cf' = 2 \<and> stopCalls sp' = Suc (stopCalls spinner0)"
    using watch_status_query_throws[OF h1 disjI1[OF h2], of 0 spinner0 Delete] h2
    by (simp add: serviceWith_sel numeral_2_eq_2)
  from c1 c2 c3 show ?thesis by blast
qed

subsection \<open>The legacy watcher\<close>

text \<open>
  C9, as stated, fails: on a deploy whose status query throws \<open>Rate exceeded\<close>
  the legacy watcher throws that error and the provider's watcher throws its own.
\<close>

theorem watchers_differ_counterexample:
  "map_option fst (legacyWatchService (Suc 0) (serviceWith throttled) ''clapdb-stack'' spinner0 Deploy)
     = Some (Inl (Error ''Rate exceeded''))
   \<and> map_option fst (watchService (Suc 0) (serviceWith throttled) ''clapdb-stack'' spinner0 Deploy)
     = Some (Inl (Error ''Failed to check deployment status''))"
  by (simp add: watchService_def legacyWatchService_def isStackDeployCompleted_def
        getStackStatus_def serviceWith_def throttled_def checkFailed_def)

lemma lastQuery_after:
  "getStackStatus cf nm = (q, cf') \<Longrightarrow> lastQuery cf' nm = q"
  by (auto simp: lastQuery_def getStackStatus_def Let_def split: sum.splits list.splits)

lemma loops_agree:
  "agree nm action (watchLoop fuel cf nm sp action) (legacyWatchLoop fuel cf nm sp action)"
proof (induction fuel arbitrary: cf sp)
  case 0
  show ?case by (simp add: agree_def)
next
  case (Suc fuel)
  obtain q1 cf1 where g1: "getStackStatus cf nm = (q1, cf1)"
    by (cases "getStackStatus cf nm") auto
  note l1 = lastQuery_after[OF g1]
  show ?case
  proof (cases q1)
    case (Inl e)
    with g1 l1 show ?thesis
      by (simp add: agree_def sameOutcome_def isStackDeployCompleted_def)
  next
    case (Inr status)
    show ?thesis
    proof (cases "status \<in> set terminalStates")
      case False
      obtain b cf2 sp2 where sh: "showFirstProcessedResource cf1 nm sp action = (b, cf2, sp2)"
        by (cases "showFirstProcessedResource cf1 nm sp action") auto
      with g1 Inr False Suc.IH[of cf2 sp2] show ?thesis
        by (simp add: isStackDeployCompleted_def)
    next
      case True
      obtain q2 cf2 where g2: "getStackStatus cf1 nm = (q2, cf2)"
        by (cases "getStackStatus cf1 nm") auto
      note l2 = lastQuery_after[OF g2]
      show ?thesis
      proof (cases q2)
        case (Inl e)
        with g1 g2 l2 Inr True show ?thesis
          by (simp add: agree_def sameOutcome_def isStackDeployCompleted_def
                isStackDeployFailed_def)
      next
        case (Inr status2)
        with g1 g2 l2 \<open>q1 = Inr status\<close> True show ?thesis
          by (simp add: agree_def sameOutcome_def isStackDeployCompleted_def
                isStackDeployFailed_def)
      qed
    qed
  qed
qed

text \<open>
  C9, amended: for every action, every engine and every number of iterations, the
  two watchers are both still polling, or both have stopped in the same state of
  the service and of the spinner, with results fixed by the last status query of
  the run. If that query gave a status (the Failed check), both watchers throw
  the failure message of the action when the status is in the Failed set and
  both succeed otherwise. If that query threw, both succeed on a delete; on a
  deploy or an update the provider's watcher throws
  \<open>Failed to check deployment status\<close> and the legacy watcher throws the error
  of the query.
\<close>

theorem watchers_agree_up_to_query_error:
  "agree nm action (watchService fuel cf nm sp action) (legacyWatchService fuel cf nm sp action)"
  using loops_agree[of nm action fuel cf sp]
  by (auto simp: agree_def watchService_def legacyWatchService_def split: option.splits)

theorem watchers_agree_up_to_query_error_witness:
  "lastQuery (serviceWith throttled\<lparr>describeStacksCalls := Suc 0\<rparr>) ''clapdb-stack''
     = Inl (Error ''Rate exceeded'')
   \<and> watchService (Suc 0) (serviceWith throttled) ''clapdb-stack'' spinner0 Deploy
     = Some (Inl (Error ''Failed to check deployment status''),
             serviceWith throttled\<lparr>describeStacksCalls := Suc 0\<rparr>,
             spinner0\<lparr>stopCalls := Suc 0\<rparr>)
   \<and> agree ''clapdb-stack'' Deploy
       (watchService (Suc 0) (serviceWith throttled) ''clapdb-stack'' spinner0 Deploy)
       (legacyWatchService (Suc 0) (serviceWith throttled) ''clapdb-stack'' spinner0 Deploy)"
proof -
  have 1: "lastQuery (serviceWith throttled\<lparr>describeStacksCalls := Suc 0\<rparr>) ''clapdb-stack''
     = Inl (Error ''Rate exceeded'')"
    by (simp add: lastQuery_def getStackStatus_def serviceWith_def throttled_def)
  have 2: "watchService (Suc 0) (serviceWith throttled) ''clapdb-stack'' spinner0 Deploy
     = Some (Inl (Error ''Failed to check deployment status''),
             serviceWith throttled\<lparr>describeStacksCalls := Suc 0\<rparr>,
             spinner0\<lparr>stopCalls := Suc 0\<rparr>)"
    by (simp add: watchService_def isStackDeployCompleted_def getStackStatus_def
          serviceWith_def throttled_def checkFailed_def spinner0_def)
  have 3: "agree ''clapdb-stack'' Deploy
       (watchService (Suc 0) (serviceWith throttled) ''clapdb-stack'' spinner0 Deploy)
       (legacyWatchService (Suc 0) (serviceWith throttled) ''clapdb-stack'' spinner0 Deploy)"
    using watchers_agree_up_to_query_error
      [of "''clapdb-stack''" Deploy "Suc 0" "serviceWith throttled" spinner0]
    by simp
  from 1 2 3 show ?thesis by blast
qed

section \<open>Properties of version resolution\<close>

lemma getLatestTag_store:
  "snd (getLatestTag store bucket)
     = store\<lparr>getObjectCalls := getObjectCalls store @ [(bucket, ''LATEST_TAG'')]\<rparr>"
  by (simp add: getLatestTag_def readObject_def Let_def split: sum.splits)

lemma getLatestHash_store:
  "snd (getLatestHash store bucket)
     = store\<lparr>getObjectCalls := getObjectCalls store @ [(bucket, ''LATEST_HASH'')]\<rparr>"
  by (simp add: getLatestHash_def readObject_def Let_def split: sum.splits)

lemma hasArtifact_store:
  "snd (hasArtifact store bucket version (Arch_string a))
     = store\<lparr>getObjectCalls := getObjectCalls store @ [(bucket, version @ ''/'' @ Arch_string a @ ''/bootstrap.zip'')]\<rparr>"
  by (simp add: hasArtifact_def Let_def split: sum.splits)

lemma deployService_store:
  "s3 (snd (deployService p nm config)) =
     (if \<not> truthy (clapdbVersion config) then snd (getLatestTag (s3 p) (bucketOf p config))
      else if clapdbVersion config = Some ''latest''
        then snd (getLatestHash (s3 p) (bucketOf p config))
      else snd (hasArtifact (s3 p) (bucketOf p config) (orEmpty (clapdbVersion config))
                  (Arch_string (arch config))))"
  by (auto simp: deployService_def bucketOf_def Let_def split: prod.splits sum.splits bool.splits)

lemma updateService_store:
  "s3 (snd (updateService p nm config)) =
     (if \<not> truthy (clapdbVersion config) then snd (getLatestTag (s3 p) (bucketOf p config))
      else if clapdbVersion config = Some ''latest''
        then snd (getLatestHash (s3 p) (bucketOf p config))
      else snd (hasArtifact (s3 p) (bucketOf p config) (orEmpty (clapdbVersion config))
                  (Arch_string (arch config))))"
  by (auto simp: updateService_def bucketOf_def Let_def split: prod.splits sum.splits bool.splits)

lemma deployService_absent:
  assumes "truthy (clapdbVersion config)" "clapdbVersion config \<noteq> Some ''latest''"
    and "\<not> fst (hasArtifact (s3 p) (bucketOf p config) (orEmpty (clapdbVersion config))
                  (Arch_string (arch config)))"
  shows "deployService p nm config =
     (Inl (Error ''Invalid version''),
      p\<lparr>s3 := snd (hasArtifact (s3 p) (bucketOf p config) (orEmpty (clapdbVersion config))
                  (Arch_string (arch config)))\<rparr>)"
  using assms
  by (auto simp: deployService_def bucketOf_def Let_def split: prod.splits sum.splits bool.splits)

lemma updateService_absent:
  assumes "truthy (clapdbVersion config)" "clapdbVersion config \<noteq> Some ''latest''"
    and "\<not> fst (hasArtifact (s3 p) (bucketOf p config) (orEmpty (clapdbVersion config))
                  (Arch_string (arch config)))"
  shows "updateService p nm config =
     (Inl (Error ''Artifact not found, check the version/commit''),
      p\<lparr>s3 := snd (hasArtifact (s3 p) (bucketOf p config) (orEmpty (clapdbVersion config))
                  (Arch_string (arch config)))\<rparr>)"
  using assms
  by (auto simp: updateService_def bucketOf_def Let_def split: prod.splits sum.splits bool.splits)

lemma providerWith_sel:
  "region (providerWith reply) = ''us-east-1''"
  "getObjectReply (s3 (providerWith reply)) = reply"
  "getObjectCalls (s3 (providerWith reply)) = []"
  by (simp_all add: providerWith_def storeWith_def)

lemma defaultConfig_sel:
  "clapdbVersion defaultConfig = None"
  "artifactsBucket defaultConfig = None"
  "arch defaultConfig = x86_64"
  by (simp_all add: defaultConfig_def)

lemma getLatestTag_fails:
  "isl (getObjectReply store bucket ''LATEST_TAG'') \<Longrightarrow>
   getLatestTag store bucket =
     (Inl (Error (''Failed to get latest tag from bucket '' @ bucket)),
      store\<lparr>getObjectCalls := getObjectCalls store @ [(bucket, ''LATEST_TAG'')]\<rparr>)"
  by (auto simp: getLatestTag_def readObject_def Let_def split: sum.splits)

lemma getLatestHash_fails:
  "isl (getObjectReply store bucket ''LATEST_HASH'') \<Longrightarrow>
   getLatestHash store bucket =
     (Inl (Error (''Failed to get latest hash from bucket '' @ bucket)),
      store\<lparr>getObjectCalls := getObjectCalls store @ [(bucket, ''LATEST_HASH'')]\<rparr>)"
  by (auto simp: getLatestHash_def readObject_def Let_def split: sum.splits)

lemma hasArtifact_fails:
  "isl (getObjectReply store bucket (version @ ''/'' @ archName @ ''/bootstrap.zip'')) \<Longrightarrow>
   hasArtifact store bucket version archName =
     (False, store\<lparr>getObjectCalls := getObjectCalls store
                       @ [(bucket, version @ ''/'' @ archName @ ''/bootstrap.zip'')]\<rparr>)"
  by (auto simp: hasArtifact_def Let_def split: sum.splits)

text \<open>
  C3: on the deploy path and on the update path alike, the store is left as one
  call of the method the token selects leaves it, and that call sends one request:
  \<open>LATEST_TAG\<close> for an absent or empty token, \<open>LATEST_HASH\<close> for the token
  \<open>latest\<close>, and for any other token the package of that token and of the
  configuration's architecture. When the package check answers false, the deploy
  fails with \<open>Invalid version\<close> and the update with
  \<open>Artifact not found, check the version/commit\<close>.
\<close>

theorem version_resolution_dispatch:
  "(\<not> truthy (clapdbVersion config) \<longrightarrow>
      s3 (snd (deployService p nm config)) = snd (getLatestTag (s3 p) (bucketOf p config))
    \<and> s3 (snd (updateService p nm config)) = snd (getLatestTag (s3 p) (bucketOf p config))
    \<and> getObjectCalls (snd (getLatestTag (s3 p) (bucketOf p config)))
        = getObjectCalls (s3 p) @ [(bucketOf p config, ''LATEST_TAG'')])
   \<and> (clapdbVersion config = Some ''latest'' \<longrightarrow>
      s3 (snd (deployService p nm config)) = snd (getLatestHash (s3 p) (bucketOf p config))
    \<and> s3 (snd (updateService p nm config)) = snd (getLatestHash (s3 p) (bucketOf p config))
    \<and> getObjectCalls (snd (getLatestHash (s3 p) (bucketOf p config)))
        = getObjectCalls (s3 p) @ [(bucketOf p config, ''LATEST_HASH'')])
   \<and> (clapdbVersion config = Some v \<and> v \<noteq> [] \<and> v \<noteq> ''latest'' \<longrightarrow>
      s3 (snd (deployService p nm config))
        = snd (hasArtifact (s3 p) (bucketOf p config) v (Arch_string (arch config)))
    \<and> s3 (snd (updateService p nm config))
        = snd (hasArtifact (s3 p) (bucketOf p config) v (Arch_string (arch config)))
    \<and> getObjectCalls (snd (hasArtifact (s3 p) (bucketOf p config) v (Arch_string (arch config))))
        = getObjectCalls (s3 p)
            @ [(bucketOf p config, v @ ''/'' @ Arch_string (arch config) @ ''/bootstrap.zip'')]
    \<and> (\<not> fst (hasArtifact (s3 p) (bucketOf p config) v (Arch_string (arch config))) \<longrightarrow>
          fst (deployService p nm config) = Inl (Error ''Invalid version'')
        \<and> fst (updateService p nm config)
            = Inl (Error ''Artifact not found, check the version/commit'')))"
proof (intro conjI impI)
  assume "\<not> truthy (clapdbVersion config)"
  then show "s3 (snd (deployService p nm config)) = snd (getLatestTag (s3 p) (bucketOf p config))"
    and "s3 (snd (updateService p nm config)) = snd (getLatestTag (s3 p) (bucketOf p config))"
    by (simp_all add: deployService_store updateService_store)
next
  show "getObjectCalls (snd (getLatestTag (s3 p) (bucketOf p config)))
        = getObjectCalls (s3 p) @ [(bucketOf p config, ''LATEST_TAG'')]"
    by (simp add: getLatestTag_store)
next
  assume "clapdbVersion config = Some ''latest''"
  then show "s3 (snd (deployService p nm config)) = snd (getLatestHash (s3 p) (bucketOf p config))"
    and "s3 (snd (updateService p nm config)) = snd (getLatestHash (s3 p) (bucketOf p config))"
    by (simp_all add: deployService_store updateService_store)
next
  show "getObjectCalls (snd (getLatestHash (s3 p) (bucketOf p config)))
        = getObjectCalls (s3 p) @ [(bucketOf p config, ''LATEST_HASH'')]"
    by (simp add: getLatestHash_store)
next
  assume v: "clapdbVersion config = Some v \<and> v \<noteq> [] \<and> v \<noteq> ''latest''"
  then show "s3 (snd (deployService p nm config))
        = snd (hasArtifact (s3 p) (bucketOf p config) v (Arch_string (arch config)))"
    and "s3 (snd (updateService p nm config))
        = snd (hasArtifact (s3 p) (bucketOf p config) v (Arch_string (arch config)))"
    by (simp_all add: deployService_store updateService_store)
  show "getObjectCalls (snd (hasArtifact (s3 p) (bucketOf p config) v (Arch_string (arch config))))
        = getObjectCalls (s3 p)
            @ [(bucketOf p config, v @ ''/'' @ Arch_string (arch config) @ ''/bootstrap.zip'')]"
    by (simp add: hasArtifact_store)
  assume "\<not> fst (hasArtifact (s3 p) (bucketOf p config) v (Arch_string (arch config)))"
  with v show "fst (deployService p nm config) = Inl (Error ''Invalid version'')"
    and "fst (updateService p nm config)
            = Inl (Error ''Artifact not found, check the version/commit'')"
    by (simp_all add: deployService_absent updateService_absent)
qed

theorem version_resolution_dispatch_witness:
  "getObjectCalls (s3 (snd (deployService (providerWith releases) ''clapdb-stack'' defaultConfig)))
     = [(''clapdb-pkgs-us-east-1'', ''LATEST_TAG'')]
   \<and> getObjectCalls (s3 (snd (updateService (providerWith releases) ''clapdb-stack''
         (defaultConfig\<lparr>clapdbVersion := Some ''latest''\<rparr>))))
     = [(''clapdb-pkgs-us-east-1'', ''LATEST_HASH'')]
   \<and> getObjectCalls (s3 (snd (deployService (providerWith releases) ''clapdb-stack''
         (defaultConfig\<lparr>clapdbVersion := Some ''v9''\<rparr>))))
     = [(''clapdb-pkgs-us-east-1'', ''v9/x86_64/bootstrap.zip'')]
   \<and> fst (deployService (providerWith releases) ''clapdb-stack''
         (defaultConfig\<lparr>clapdbVersion := Some ''v9''\<rparr>)) = Inl (Error ''Invalid version'')
   \<and> fst (updateService (providerWith releases) ''clapdb-stack''
         (defaultConfig\<lparr>clapdbVersion := Some ''v9''\<rparr>))
       = Inl (Error ''Artifact not found, check the version/commit'')"
proof -
  have b: "\<And>c. artifactsBucket c = None \<Longrightarrow> bucketOf (providerWith releases) c = ''clapdb-pkgs-us-east-1''"
    by (simp add: bucketOf_def providerWith_sel getArtifactsBucket_def)
  have absent: "\<not> fst (hasArtifact (s3 (providerWith releases)) ''clapdb-pkgs-us-east-1'' ''v9''
                     (Arch_string x86_64))"
    by (simp add: hasArtifact_def providerWith_sel releases_def)
  from version_resolution_dispatch
         [of defaultConfig "providerWith releases" "''clapdb-stack''" "''v9''"]
  have 1: "getObjectCalls (s3 (snd (deployService (providerWith releases) ''clapdb-stack'' defaultConfig)))
     = [(''clapdb-pkgs-us-east-1'', ''LATEST_TAG'')]"
    by (simp add: defaultConfig_sel b providerWith_sel)
  from version_resolution_dispatch
         [of "defaultConfig\<lparr>clapdbVersion := Some ''latest''\<rparr>" "providerWith releases"
             "''clapdb-stack''" "''v9''"]
  have 2: "getObjectCalls (s3 (snd (updateService (providerWith releases) ''clapdb-stack''
         (defaultConfig\<lparr>clapdbVersion := Some ''latest''\<rparr>))))
     = [(''clapdb-pkgs-us-east-1'', ''LATEST_HASH'')]"
    by (simp add: defaultConfig_sel b providerWith_sel)
  from version_resolution_dispatch
         [of "defaultConfig\<lparr>clapdbVersion := Some ''v9''\<rparr>" "providerWith releases"
             "''clapdb-stack''" "''v9''"] absent
  have 3: "getObjectCalls (s3 (snd (deployService (providerWith releases) ''clapdb-stack''
         (defaultConfig\<lparr>clapdbVersion := Some ''v9''\<rparr>))))
     = [(''clapdb-pkgs-us-east-1'', ''v9/x86_64/bootstrap.zip'')]
   \<and> fst (deployService (providerWith releases) ''clapdb-stack''
         (defaultConfig\<lparr>clapdbVersion := Some ''v9''\<rparr>)) = Inl (Error ''Invalid version'')
   \<and> fst (updateService (providerWith releases) ''clapdb-stack''
         (defaultConfig\<lparr>clapdbVersion := Some ''v9''\<rparr>))
       = Inl (Error ''Artifact not found, check the version/commit'')"
    by (simp add: defaultConfig_sel b providerWith_sel)
  from 1 2 3 show ?thesis by blast
qed

text \<open>
  C5, as stated, fails: the store refuses the request of the package check with
  \<open>AccessDenied\<close>, and the caller gets the outcome of an absent package.
\<close>

theorem has_artifact_swallows_store_error_counterexample:
  "getObjectReply (s3 (providerWith denied)) ''clapdb-pkgs-us-east-1'' ''v3/x86_64/bootstrap.zip''
     = Inl (Error ''AccessDenied'')
   \<and> fst (deployService (providerWith denied) ''clapdb-stack''
            (defaultConfig\<lparr>clapdbVersion := Some ''v3''\<rparr>))
       = Inl (Error ''Invalid version'')
   \<and> fst (updateService (providerWith denied) ''clapdb-stack''
            (defaultConfig\<lparr>clapdbVersion := Some ''v3''\<rparr>))
       = Inl (Error ''Artifact not found, check the version/commit'')"
  by (simp add: deployService_def updateService_def hasArtifact_def providerWith_def
        storeWith_def denied_def defaultConfig_def getArtifactsBucket_def)

text \<open>
  C5, amended: when the one store request of a version resolution fails, the call
  ends at once, with that single request sent, no retry and nothing sent to the
  engine. For an absent or empty token and for \<open>latest\<close> the caller gets the error
  \<open>Failed to get latest tag from bucket\<close> (resp. \<open>hash\<close>) with the bucket's name.
  For any other token the failure is taken for an absent package: the deploy fails
  with \<open>Invalid version\<close>, the update with
  \<open>Artifact not found, check the version/commit\<close>.
\<close>

theorem store_failure_outcome:
  "(\<not> truthy (clapdbVersion config)
      \<and> isl (getObjectReply (s3 p) (bucketOf p config) ''LATEST_TAG'') \<longrightarrow>
      deployService p nm config =
        (Inl (Error (''Failed to get latest tag from bucket '' @ bucketOf p config)),
         p\<lparr>s3 := (s3 p)\<lparr>getObjectCalls := getObjectCalls (s3 p)
                                            @ [(bucketOf p config, ''LATEST_TAG'')]\<rparr>\<rparr>)
    \<and> updateService p nm config =
        (Inl (Error (''Failed to get latest tag from bucket '' @ bucketOf p config)),
         p\<lparr>s3 := (s3 p)\<lparr>getObjectCalls := getObjectCalls (s3 p)
                                            @ [(bucketOf p config, ''LATEST_TAG'')]\<rparr>\<rparr>))
   \<and> (clapdbVersion config = Some ''latest''
      \<and> isl (getObjectReply (s3 p) (bucketOf p config) ''LATEST_HASH'') \<longrightarrow>
      deployService p nm config =
        (Inl (Error (''Failed to get latest hash from bucket '' @ bucketOf p config)),
         p\<lparr>s3 := (s3 p)\<lparr>getObjectCalls := getObjectCalls (s3 p)
                                            @ [(bucketOf p config, ''LATEST_HASH'')]\<rparr>\<rparr>)
    \<and> updateService p nm config =
        (Inl (Error (''Failed to get latest hash from bucket '' @ bucketOf p config)),
         p\<lparr>s3 := (s3 p)\<lparr>getObjectCalls := getObjectCalls (s3 p)
                                            @ [(bucketOf p config, ''LATEST_HASH'')]\<rparr>\<rparr>))
   \<and> (clapdbVersion config = Some v \<and> v \<noteq> [] \<and> v \<noteq> ''latest''
      \<and> isl (getObjectReply (s3 p) (bucketOf p config)
                (v @ ''/'' @ Arch_string (arch config) @ ''/bootstrap.zip'')) \<longrightarrow>
      deployService p nm config =
        (Inl (Error ''Invalid version''),
         p\<lparr>s3 := (s3 p)\<lparr>getObjectCalls := getObjectCalls (s3 p)
             @ [(bucketOf p config, v @ ''/'' @ Arch_string (arch config) @ ''/bootstrap.zip'')]\<rparr>\<rparr>)
    \<and> updateService p nm config =
        (Inl (Error ''Artifact not found, check the version/commit''),
         p\<lparr>s3 := (s3 p)\<lparr>getObjectCalls := getObjectCalls (s3 p)
             @ [(bucketOf p config, v @ ''/'' @ Arch_string (arch config) @ ''/bootstrap.zip'')]\<rparr>\<rparr>))"
proof (intro conjI impI)
  assume a: "\<not> truthy (clapdbVersion config)
      \<and> isl (getObjectReply (s3 p) (bucketOf p config) ''LATEST_TAG'')"
  then have t: "getLatestTag (s3 p) (bucketOf p config) =
     (Inl (Error (''Failed to get latest tag from bucket '' @ bucketOf p config)),
      (s3 p)\<lparr>getObjectCalls := getObjectCalls (s3 p) @ [(bucketOf p config, ''LATEST_TAG'')]\<rparr>)"
    by (simp add: getLatestTag_fails)
  show "deployService p nm config =
        (Inl (Error (''Failed to get latest tag from bucket '' @ bucketOf p config)),
         p\<lparr>s3 := (s3 p)\<lparr>getObjectCalls := getObjectCalls (s3 p)
                                            @ [(bucketOf p config, ''LATEST_TAG'')]\<rparr>\<rparr>)"
    unfolding deployService_def Let_def bucketOf_def[symmetric] using a t by simp
  show "updateService p nm config =
        (Inl (Error (''Failed to get latest tag from bucket '' @ bucketOf p config)),
         p\<lparr>s3 := (s3 p)\<lparr>getObjectCalls := getObjectCalls (s3 p)
                                            @ [(bucketOf p config, ''LATEST_TAG'')]\<rparr>\<rparr>)"
    unfolding updateService_def Let_def bucketOf_def[symmetric] using a t by simp
next
  assume a: "clapdbVersion config = Some ''latest''
      \<and> isl (getObjectReply (s3 p) (bucketOf p config) ''LATEST_HASH'')"
  then have t: "getLatestHash (s3 p) (bucketOf p config) =
     (Inl (Error (''Failed to get latest hash from bucket '' @ bucketOf p config)),
      (s3 p)\<lparr>getObjectCalls := getObjectCalls (s3 p) @ [(bucketOf p config, ''LATEST_HASH'')]\<rparr>)"
    by (simp add: getLatestHash_fails)
  show "deployService p nm config =
        (Inl (Error (''Failed to get latest hash from bucket '' @ bucketOf p config)),
         p\<lparr>s3 := (s3 p)\<lparr>getObjectCalls := getObjectCalls (s3 p)
                                            @ [(bucketOf p config, ''LATEST_HASH'')]\<rparr>\<rparr>)"
    unfolding deployService_def Let_def bucketOf_def[symmetric] using a t by simp
  show "updateService p nm config =
        (Inl (Error (''Failed to get latest hash from bucket '' @ bucketOf p config)),
         p\<lparr>s3 := (s3 p)\<lparr>getObjectCalls := getObjectCalls (s3 p)
                                            @ [(bucketOf p config, ''LATEST_HASH'')]\<rparr>\<rparr>)"
    unfolding updateService_def Let_def bucketOf_def[symmetric] using a t by simp
next
  assume a: "clapdbVersion config = Some v \<and> v \<noteq> [] \<and> v \<noteq> ''latest''
      \<and> isl (getObjectReply (s3 p) (bucketOf p config)
                (v @ ''/'' @ Arch_string (arch config) @ ''/bootstrap.zip''))"
  then have t: "hasArtifact (s3 p) (bucketOf p config) v (Arch_string (arch config)) =
     (False, (s3 p)\<lparr>getObjectCalls := getObjectCalls (s3 p)
        @ [(bucketOf p config, v @ ''/'' @ Arch_string (arch config) @ ''/bootstrap.zip'')]\<rparr>)"
    by (simp add: hasArtifact_fails)
  show "deployService p nm config =
        (Inl (Error ''Invalid version''),
         p\<lparr>s3 := (s3 p)\<lparr>getObjectCalls := getObjectCalls (s3 p)
             @ [(bucketOf p config, v @ ''/'' @ Arch_string (arch config) @ ''/bootstrap.zip'')]\<rparr>\<rparr>)"
    unfolding deployService_def Let_def bucketOf_def[symmetric] using a t by simp
  show "updateService p nm config =
        (Inl (Error ''Artifact not found, check the version/commit''),
         p\<lparr>s3 := (s3 p)\<lparr>getObjectCalls := getObjectCalls (s3 p)
             @ [(bucketOf p config, v @ ''/'' @ Arch_string (arch config) @ ''/bootstrap.zip'')]\<rparr>\<rparr>)"
    unfolding updateService_def Let_def bucketOf_def[symmetric] using a t by simp
qed

theorem store_failure_outcome_witness:
  "deployService (providerWith denied) ''clapdb-stack'' defaultConfig =
     (Inl (Error ''Failed to get latest tag from bucket clapdb-pkgs-us-east-1''),
      (providerWith denied)\<lparr>s3 := (s3 (providerWith denied))
         \<lparr>getObjectCalls := [(''clapdb-pkgs-us-east-1'', ''LATEST_TAG'')]\<rparr>\<rparr>)
   \<and> updateService (providerWith denied) ''clapdb-stack''
        (defaultConfig\<lparr>clapdbVersion := Some ''latest''\<rparr>) =
     (Inl (Error ''Failed to get latest hash from bucket clapdb-pkgs-us-east-1''),
      (providerWith denied)\<lparr>s3 := (s3 (providerWith denied))
         \<lparr>getObjectCalls := [(''clapdb-pkgs-us-east-1'', ''LATEST_HASH'')]\<rparr>\<rparr>)
   \<and> updateService (providerWith denied) ''clapdb-stack''
        (defaultConfig\<lparr>clapdbVersion := Some ''v3''\<rparr>) =
     (Inl (Error ''Artifact not found, check the version/commit''),
      (providerWith denied)\<lparr>s3 := (s3 (providerWith denied))
         \<lparr>getObjectCalls := [(''clapdb-pkgs-us-east-1'', ''v3/x86_64/bootstrap.zip'')]\<rparr>\<rparr>)"
proof -
  have b: "\<And>c. artifactsBucket c = None \<Longrightarrow> bucketOf (providerWith denied) c = ''clapdb-pkgs-us-east-1''"
    by (simp add: bucketOf_def providerWith_sel getArtifactsBucket_def)
  from store_failure_outcome
         [of defaultConfig "providerWith denied" "''clapdb-stack''" "''v3''"]
  have 1: "deployService (providerWith denied) ''clapdb-stack'' defaultConfig =
     (Inl (Error ''Failed to get latest tag from bucket clapdb-pkgs-us-east-1''),
      (providerWith denied)\<lparr>s3 := (s3 (providerWith denied))
         \<lparr>getObjectCalls := [(''clapdb-pkgs-us-east-1'', ''LATEST_TAG'')]\<rparr>\<rparr>)"
    by (simp add: defaultConfig_sel b providerWith_sel denied_def)
  from store_failure_outcome
         [of "defaultConfig\<lparr>clapdbVersion := Some ''latest''\<rparr>" "providerWith denied"
             "''clapdb-stack''" "''v3''"]
  have 2: "updateService (providerWith denied) ''clapdb-stack''
        (defaultConfig\<lparr>clapdbVersion := Some ''latest''\<rparr>) =
     (Inl (Error ''Failed to get latest hash from bucket clapdb-pkgs-us-east-1''),
      (providerWith denied)\<lparr>s3 := (s3 (providerWith denied))
         \<lparr>getObjectCalls := [(''clapdb-pkgs-us-east-1'', ''LATEST_HASH'')]\<rparr>\<rparr>)"
    by (simp add: defaultConfig_sel b providerWith_sel denied_def)
  from store_failure_outcome
         [of "defaultConfig\<lparr>clapdbVersion := Some ''v3''\<rparr>" "providerWith denied"
             "''clapdb-stack''" "''v3''"]
  have 3: "updateService (providerWith denied) ''clapdb-stack''
        (defaultConfig\<lparr>clapdbVersion := Some ''v3''\<rparr>) =
     (Inl (Error ''Artifact not found, check the version/commit''),
      (providerWith denied)\<lparr>s3 := (s3 (providerWith denied))
         \<lparr>getObjectCalls := [(''clapdb-pkgs-us-east-1'', ''v3/x86_64/bootstrap.zip'')]\<rparr>\<rparr>)"
    by (simp add: defaultConfig_sel b providerWith_sel denied_def)
  from 1 2 3 show ?thesis by blast
qed

section \<open>Properties of the create and update requests\<close>

text \<open>
  C6, as stated, fails: an update run with the stack name as its only option (no
  option string is parsed in it, whatever \<open>Number.parseInt\<close> is) submits the value
  \<open>3008\<close> for \<open>LambdaMemorySize\<close> and the store's latest tag for
  \<open>ClapDBVersion\<close>, not the sentinel.
\<close>

theorem update_resets_memory_counterexample:
  "optLambdaMemorySize noOptions = None
   \<and> optCommit noOptions = None
   \<and> map (findParameter ''LambdaMemorySize'')
       (updateParameters (sent (cloudformation (snd
          (updateService (providerWith releases) ''clapdb-stack''
             (updateCommandConfig (\<lambda>s. Number ''NaN'') ''us-east-1'' ''clapdb-stack'' noOptions))))))
     = [Some (valueParameter ''LambdaMemorySize'' (Some ''3008''))]
   \<and> map (findParameter ''ClapDBVersion'')
       (updateParameters (sent (cloudformation (snd
          (updateService (providerWith releases) ''clapdb-stack''
             (updateCommandConfig (\<lambda>s. Number ''NaN'') ''us-east-1'' ''clapdb-stack'' noOptions))))))
     = [Some (valueParameter ''ClapDBVersion'' (Some ''v3''))]"
  by (simp add: updateService_def updateStack_def getTemplateBody_def updateStackInput_def
        updateCommandConfig_def noOptions_def getLatestTag_def readObject_def providerWith_def
        storeWith_def releases_def serviceWith_def findParameter_def valueParameter_def
        previousParameter_def getArtifactsBucket_def Let_def trim_def
        isWhiteSpace_def)

lemma updateStack_sent:
  assumes "UpdateStackCommand u \<in> set (sent (snd (updateStack cf nm config)))"
  shows "UpdateStackCommand u \<in> set (sent cf)
   \<or> (\<exists>body. u = updateStackInput nm config body \<and> submittedBody cf nm config body)"
proof (cases "templateBody config")
  case None
  with assms show ?thesis
    by (auto simp: updateStack_def getTemplateBody_def submittedBody_def Let_def
             split: if_splits sum.splits prod.splits)
next
  case (Some tb)
  with assms show ?thesis
    by (auto simp: updateStack_def getTemplateBody_def submittedBody_def Let_def
             split: if_splits sum.splits prod.splits)
qed

lemma updateService_cloudformation:
  "cloudformation (snd (updateService p nm config)) = cloudformation p
   \<or> (\<exists>version. resolvedVersion p config version
        \<and> cloudformation (snd (updateService p nm config))
          = snd (updateStack (cloudformation p) nm
                   (config\<lparr>clapdbVersion := Some version,
                           artifactsBucket := Some (bucketOf p config)\<rparr>)))"
proof -
  define res where "res =
    (if \<not> truthy (clapdbVersion config) then getLatestTag (s3 p) (bucketOf p config)
     else if clapdbVersion config = Some ''latest'' then getLatestHash (s3 p) (bucketOf p config)
     else (case hasArtifact (s3 p) (bucketOf p config) (orEmpty (clapdbVersion config))
                  (Arch_string (arch config)) of
             (False, store') \<Rightarrow>
               (Inl (Error ''Artifact not found, check the version/commit''), store')
           | (True, store') \<Rightarrow> (Inr (orEmpty (clapdbVersion config)), store')))"
  have u: "updateService p nm config =
     (case res of
        (Inl e, store') \<Rightarrow> (Inl e, p\<lparr>s3 := store'\<rparr>)
      | (Inr version, store') \<Rightarrow>
          (case updateStack (cloudformation p) nm
                  (config\<lparr>clapdbVersion := Some version,
                          artifactsBucket := Some (bucketOf p config)\<rparr>) of
             (r, cf') \<Rightarrow> (r, p\<lparr>s3 := store', cloudformation := cf'\<rparr>)))"
    unfolding updateService_def Let_def bucketOf_def[symmetric] res_def ..
  obtain r store' where res: "res = (r, store')" by (cases res) auto
  show ?thesis
  proof (cases r)
    case (Inl e)
    with res u show ?thesis by simp
  next
    case (Inr version)
    with res u have c: "cloudformation (snd (updateService p nm config))
        = snd (updateStack (cloudformation p) nm
                 (config\<lparr>clapdbVersion := Some version,
                         artifactsBucket := Some (bucketOf p config)\<rparr>))"
      by (simp split: prod.splits)
    have "resolvedVersion p config version"
    proof (cases "\<not> truthy (clapdbVersion config)")
      case True
      with res Inr show ?thesis by (simp add: res_def resolvedVersion_def)
    next
      case False
      note t = this
      show ?thesis
      proof (cases "clapdbVersion config = Some ''latest''")
        case True
        with res Inr show ?thesis by (simp add: res_def resolvedVersion_def)
      next
        case False
        from t obtain v where v: "clapdbVersion config = Some v"
          by (cases "clapdbVersion config") auto
        from res Inr t False v show ?thesis
          by (auto simp: res_def resolvedVersion_def split: prod.splits bool.splits)
      qed
    qed
    with c show ?thesis by blast
  qed
qed

text \<open>
  C6, amended: in every update request the parameters \<open>Arch\<close>,
  \<open>ArtifactsBucket\<close>, \<open>EnablePrivateVPC\<close> and \<open>EnablePrivateEndpoint\<close> are
  submitted as "use previous value" sentinels, whatever the configuration holds
  for them; so \<open>EnablePrivateVPC\<close> is never submitted as \<open>false\<close>. The other
  parameters are submitted as values: the stack name, the version, and the
  configuration's four memory sizes and logging flag. Every update request that
  \<open>updateService\<close> sends is such a request, built from the configuration with
  the resolved version (the store's latest tag, its latest hash, or the token
  that was checked) as its \<open>ClapDBVersion\<close>, and with the configuration's template
  body or else the stack's current one.
\<close>

theorem update_request_sentinels:
  "findParameter ''Arch'' (Parameters (updateStackInput nm config body))
     = Some (previousParameter ''Arch'')
   \<and> findParameter ''ArtifactsBucket'' (Parameters (updateStackInput nm config body))
     = Some (previousParameter ''ArtifactsBucket'')
   \<and> findParameter ''EnablePrivateVPC'' (Parameters (updateStackInput nm config body))
     = Some (previousParameter ''EnablePrivateVPC'')
   \<and> findParameter ''EnablePrivateEndpoint'' (Parameters (updateStackInput nm config body))
     = Some (previousParameter ''EnablePrivateEndpoint'')
   \<and> findParameter ''StackName'' (Parameters (updateStackInput nm config body))
     = Some (valueParameter ''StackName'' (Some nm))
   \<and> findParameter ''ClapDBVersion'' (Parameters (updateStackInput nm config body))
     = Some (valueParameter ''ClapDBVersion'' (clapdbVersion config))
   \<and> findParameter ''LambdaMemorySize'' (Parameters (updateStackInput nm config body))
     = Some (valueParameter ''LambdaMemorySize'' (Some (String_number (lambdaMemorySize config))))
   \<and> findParameter ''DispatcherMemorySize'' (Parameters (updateStackInput nm config body))
     = Some (valueParameter ''DispatcherMemorySize''
               (Some (String_number (dispatcherMemorySize config))))
   \<and> findParameter ''ReducerMemorySize'' (Parameters (updateStackInput nm config body))
     = Some (valueParameter ''ReducerMemorySize'' (Some (String_number (reducerMemorySize config))))
   \<and> findParameter ''WorkerMemorySize'' (Parameters (updateStackInput nm config body))
     = Some (valueParameter ''WorkerMemorySize'' (Some (String_number (workerMemorySize config))))
   \<and> findParameter ''EnableLogging'' (Parameters (updateStackInput nm config body))
     = Some (valueParameter ''EnableLogging'' (Some (String_boolean (enableLogging config))))
   \<and> (\<forall>u. UpdateStackCommand u \<in> set (sent (cloudformation (snd (updateService p nm config))))
        \<longrightarrow> UpdateStackCommand u \<in> set (sent (cloudformation p))
            \<or> (\<exists>version b.
                  u = updateStackInput nm
                        (config\<lparr>clapdbVersion := Some version,
                                artifactsBucket := Some (bucketOf p config)\<rparr>) b
                  \<and> resolvedVersion p config version
                  \<and> submittedBody (cloudformation p) nm config b
                  \<and> findParameter ''ClapDBVersion'' (Parameters u)
                      = Some (valueParameter ''ClapDBVersion'' (Some version))))"
proof -
  have shape: "\<And>c. Parameters (updateStackInput nm c body) =
        [valueParameter ''StackName'' (Some nm),
         previousParameter ''Arch'',
         previousParameter ''ArtifactsBucket'',
         valueParameter ''ClapDBVersion'' (clapdbVersion c),
         previousParameter ''EnablePrivateVPC'',
         previousParameter ''EnablePrivateEndpoint'',
         valueParameter ''LambdaMemorySize'' (Some (String_number (lambdaMemorySize c))),
         valueParameter ''DispatcherMemorySize''
           (Some (String_number (dispatcherMemorySize c))),
         valueParameter ''ReducerMemorySize'' (Some (String_number (reducerMemorySize c))),
         valueParameter ''WorkerMemorySize'' (Some (String_number (workerMemorySize c))),
         valueParameter ''EnableLogging'' (Some (String_boolean (enableLogging c)))]"
    by (simp add: updateStackInput_def)
  have keys: "\<And>k v. ParameterKey (valueParameter k v) = k" "\<And>k. ParameterKey (previousParameter k) = k"
    by (simp_all add: valueParameter_def previousParameter_def)
  have version: "\<And>c b. findParameter ''ClapDBVersion'' (Parameters (updateStackInput nm c b))
                   = Some (valueParameter ''ClapDBVersion'' (clapdbVersion c))"
    by (simp add: updateStackInput_def findParameter_def keys)
  have link: "\<forall>u. UpdateStackCommand u \<in> set (sent (cloudformation (snd (updateService p nm config))))
        \<longrightarrow> UpdateStackCommand u \<in> set (sent (cloudformation p))
            \<or> (\<exists>version b.
                  u = updateStackInput nm
                        (config\<lparr>clapdbVersion := Some version,
                                artifactsBucket := Some (bucketOf p config)\<rparr>) b
                  \<and> resolvedVersion p config version
                  \<and> submittedBody (cloudformation p) nm config b
                  \<and> findParameter ''ClapDBVersion'' (Parameters u)
                      = Some (valueParameter ''ClapDBVersion'' (Some version)))"
  proof (intro allI impI)
    fix u
    assume m: "UpdateStackCommand u \<in> set (sent (cloudformation (snd (updateService p nm config))))"
    from updateService_cloudformation[of p nm config]
    show "UpdateStackCommand u \<in> set (sent (cloudformation p))
            \<or> (\<exists>version b.
                  u = updateStackInput nm
                        (config\<lparr>clapdbVersion := Some version,
                                artifactsBucket := Some (bucketOf p config)\<rparr>) b
                  \<and> resolvedVersion p config version
                  \<and> submittedBody (cloudformation p) nm config b
                  \<and> findParameter ''ClapDBVersion'' (Parameters u)
                      = Some (valueParameter ''ClapDBVersion'' (Some version)))"
    proof
      assume "cloudformation (snd (updateService p nm config)) = cloudformation p"
      with m show ?thesis by simp
    next
      assume "\<exists>version. resolvedVersion p config version
        \<and> cloudformation (snd (updateService p nm config))
          = snd (updateStack (cloudformation p) nm
                   (config\<lparr>clapdbVersion := Some version,
                           artifactsBucket := Some (bucketOf p config)\<rparr>))"
      then obtain version where rv: "resolvedVersion p config version"
        and cf: "cloudformation (snd (updateService p nm config))
          = snd (updateStack (cloudformation p) nm
                   (config\<lparr>clapdbVersion := Some version,
                           artifactsBucket := Some (bucketOf p config)\<rparr>))"
        by blast
      from m cf updateStack_sent
      have "UpdateStackCommand u \<in> set (sent (cloudformation p))
         \<or> (\<exists>b. u = updateStackInput nm
                        (config\<lparr>clapdbVersion := Some version,
                                artifactsBucket := Some (bucketOf p config)\<rparr>) b
                \<and> submittedBody (cloudformation p) nm
                     (config\<lparr>clapdbVersion := Some version,
                             artifactsBucket := Some (bucketOf p config)\<rparr>) b)"
        by simp
      then show ?thesis
      proof
        assume "UpdateStackCommand u \<in> set (sent (cloudformation p))"
        then show ?thesis by simp
      next
        assume "\<exists>b. u = updateStackInput nm
                        (config\<lparr>clapdbVersion := Some version,
                                artifactsBucket := Some (bucketOf p config)\<rparr>) b
                \<and> submittedBody (cloudformation p) nm
                     (config\<lparr>clapdbVersion := Some version,
                             artifactsBucket := Some (bucketOf p config)\<rparr>) b"
        then obtain b where u: "u = updateStackInput nm
                        (config\<lparr>clapdbVersion := Some version,
                                artifactsBucket := Some (bucketOf p config)\<rparr>) b"
          and sb: "submittedBody (cloudformation p) nm
                     (config\<lparr>clapdbVersion := Some version,
                             artifactsBucket := Some (bucketOf p config)\<rparr>) b"
          by blast
        from sb have sb': "submittedBody (cloudformation p) nm config b"
          by (auto simp: submittedBody_def split: if_splits)
        from u have "findParameter ''ClapDBVersion'' (Parameters u)
                      = Some (valueParameter ''ClapDBVersion'' (Some version))"
          by (simp add: version)
        with u rv sb' show ?thesis by blast
      qed
    qed
  qed
  show ?thesis
    unfolding shape findParameter_def using link by (simp add: keys findParameter_def)
qed

theorem update_request_sentinels_witness:
  "UpdateStackCommand
     (updateStackInput ''clapdb-stack''
        ((updateCommandConfig (\<lambda>s. Number ''NaN'') ''us-east-1'' ''clapdb-stack''
            (noOptions\<lparr>optCommit := Some ''latest''\<rparr>))
           \<lparr>clapdbVersion := Some ''0a1b2c3'',
             artifactsBucket := Some ''clapdb-pkgs-us-east-1''\<rparr>) [])
     \<in> set (sent (cloudformation (snd
          (updateService (providerWith releases) ''clapdb-stack''
             (updateCommandConfig (\<lambda>s. Number ''NaN'') ''us-east-1'' ''clapdb-stack''
                (noOptions\<lparr>optCommit := Some ''latest''\<rparr>))))))
   \<and> findParameter ''EnablePrivateVPC''
        (Parameters (updateStackInput ''clapdb-stack''
           ((updateCommandConfig (\<lambda>s. Number ''NaN'') ''us-east-1'' ''clapdb-stack''
               (noOptions\<lparr>optCommit := Some ''latest''\<rparr>))
              \<lparr>clapdbVersion := Some ''0a1b2c3'',
                artifactsBucket := Some ''clapdb-pkgs-us-east-1''\<rparr>) []))
       = Some (previousParameter ''EnablePrivateVPC'')
   \<and> findParameter ''ClapDBVersion''
        (Parameters (updateStackInput ''clapdb-stack''
           ((updateCommandConfig (\<lambda>s. Number ''NaN'') ''us-east-1'' ''clapdb-stack''
               (noOptions\<lparr>optCommit := Some ''latest''\<rparr>))
              \<lparr>clapdbVersion := Some ''0a1b2c3'',
                artifactsBucket := Some ''clapdb-pkgs-us-east-1''\<rparr>) []))
       = Some (valueParameter ''ClapDBVersion'' (Some ''0a1b2c3''))
   \<and> resolvedVersion (providerWith releases)
        (updateCommandConfig (\<lambda>s. Number ''NaN'') ''us-east-1'' ''clapdb-stack''
           (noOptions\<lparr>optCommit := Some ''latest''\<rparr>)) ''0a1b2c3''
   \<and> (\<exists>version b.
         resolvedVersion (providerWith releases)
           (updateCommandConfig (\<lambda>s. Number ''NaN'') ''us-east-1'' ''clapdb-stack''
              (noOptions\<lparr>optCommit := Some ''latest''\<rparr>)) version
         \<and> submittedBody (cloudformation (providerWith releases)) ''clapdb-stack''
             (updateCommandConfig (\<lambda>s. Number ''NaN'') ''us-east-1'' ''clapdb-stack''
                (noOptions\<lparr>optCommit := Some ''latest''\<rparr>)) b
         \<and> findParameter ''ClapDBVersion''
             (Parameters (updateStackInput ''clapdb-stack''
                ((updateCommandConfig (\<lambda>s. Number ''NaN'') ''us-east-1'' ''clapdb-stack''
                    (noOptions\<lparr>optCommit := Some ''latest''\<rparr>))
                   \<lparr>clapdbVersion := Some ''0a1b2c3'',
                     artifactsBucket := Some ''clapdb-pkgs-us-east-1''\<rparr>) []))
             = Some (valueParameter ''ClapDBVersion'' (Some version)))"
proof -
  let ?cfg = "updateCommandConfig (\<lambda>s. Number ''NaN'') ''us-east-1'' ''clapdb-stack''
                (noOptions\<lparr>optCommit := Some ''latest''\<rparr>)"
  let ?u = "updateStackInput ''clapdb-stack''
        (?cfg\<lparr>clapdbVersion := Some ''0a1b2c3'',
               artifactsBucket := Some ''clapdb-pkgs-us-east-1''\<rparr>) []"
  have sent0: "sent (cloudformation (providerWith releases)) = []"
    by (simp add: providerWith_def serviceWith_def)
  have h: "UpdateStackCommand ?u
     \<in> set (sent (cloudformation (snd (updateService (providerWith releases) ''clapdb-stack'' ?cfg))))"
    by (simp add: updateService_def updateStack_def getTemplateBody_def
        updateCommandConfig_def noOptions_def getLatestHash_def readObject_def providerWith_def
        storeWith_def releases_def serviceWith_def getArtifactsBucket_def Let_def trim_def
        isWhiteSpace_def)
  have rv: "resolvedVersion (providerWith releases) ?cfg ''0a1b2c3''"
    by (simp add: resolvedVersion_def bucketOf_def updateCommandConfig_def noOptions_def
        getLatestHash_def readObject_def providerWith_def storeWith_def releases_def
        getArtifactsBucket_def Let_def trim_def isWhiteSpace_def)
  note w = update_request_sentinels
         [of "''clapdb-stack''"
             "?cfg\<lparr>clapdbVersion := Some ''0a1b2c3'',
                    artifactsBucket := Some ''clapdb-pkgs-us-east-1''\<rparr>"
             "[]" "providerWith releases"]
  from w have c1: "findParameter ''EnablePrivateVPC'' (Parameters ?u)
       = Some (previousParameter ''EnablePrivateVPC'')"
    by blast
  from w have c2: "findParameter ''ClapDBVersion'' (Parameters ?u)
       = Some (valueParameter ''ClapDBVersion'' (Some ''0a1b2c3''))"
    by simp
  from update_request_sentinels
         [of "''clapdb-stack''" ?cfg "[]" "providerWith releases"]
  have every: "\<forall>u. UpdateStackCommand u
          \<in> set (sent (cloudformation (snd (updateService (providerWith releases) ''clapdb-stack'' ?cfg))))
        \<longrightarrow> UpdateStackCommand u \<in> set (sent (cloudformation (providerWith releases)))
            \<or> (\<exists>version b.
                  u = updateStackInput ''clapdb-stack''
                        (?cfg\<lparr>clapdbVersion := Some version,
                              artifactsBucket := Some (bucketOf (providerWith releases) ?cfg)\<rparr>) b
                  \<and> resolvedVersion (providerWith releases) ?cfg version
                  \<and> submittedBody (cloudformation (providerWith releases)) ''clapdb-stack'' ?cfg b
                  \<and> findParameter ''ClapDBVersion'' (Parameters u)
                      = Some (valueParameter ''ClapDBVersion'' (Some version)))"
    by blast
  from every h sent0 obtain version b where
    "resolvedVersion (providerWith releases) ?cfg version"
    "submittedBody (cloudformation (providerWith releases)) ''clapdb-stack'' ?cfg b"
    "findParameter ''ClapDBVersion'' (Parameters ?u)
       = Some (valueParameter ''ClapDBVersion'' (Some version))"
    by fastforce
  then have c3: "\<exists>version b.
         resolvedVersion (providerWith releases) ?cfg version
         \<and> submittedBody (cloudformation (providerWith releases)) ''clapdb-stack'' ?cfg b
         \<and> findParameter ''ClapDBVersion'' (Parameters ?u)
             = Some (valueParameter ''ClapDBVersion'' (Some version))"
    by blast
  from h c1 c2 rv c3 show ?thesis by blast
qed

lemma createStack_sent:
  "sent (snd (createStack cf nm config)) = sent cf @ [CreateStackCommand (createStackInput nm config)]"
  by (simp add: createStack_def Let_def split: sum.splits)

lemma createStackInput_memory:
  "createStackInput nm
     (config\<lparr>dispatcherMemorySize := d, reducerMemorySize := r, workerMemorySize := w\<rparr>)
   = createStackInput nm config"
  by (simp add: createStackInput_def)

lemma createStack_memory_resolved:
  "createStack cf nm
     (config\<lparr>dispatcherMemorySize := d, reducerMemorySize := r, workerMemorySize := w,
             clapdbVersion := v, artifactsBucket := b\<rparr>)
   = createStack cf nm (config\<lparr>clapdbVersion := v, artifactsBucket := b\<rparr>)"
  by (simp add: createStack_def createStackInput_def)

lemma deployService_memory:
  "deployService p nm
     (config\<lparr>dispatcherMemorySize := d, reducerMemorySize := r, workerMemorySize := w\<rparr>)
   = deployService p nm config"
  by (simp add: deployService_def Let_def createStack_memory_resolved
        cong: prod.case_cong sum.case_cong bool.case_cong)

text \<open>
  C10: the create request has the eight parameters listed, among them
  \<open>LambdaMemorySize\<close> and none of \<open>DispatcherMemorySize\<close>, \<open>ReducerMemorySize\<close>,
  \<open>WorkerMemorySize\<close>; \<open>createStack\<close> sends that request; the request, and the
  whole outcome of \<open>deployService\<close>, are the same whatever the three memory sizes
  of the configuration are; the update request submits the three as values.
\<close>

theorem create_request_memory_sizes:
  "map ParameterKey (Parameters (createStackInput nm config))
     = [''StackName'', ''Arch'', ''ArtifactsBucket'', ''ClapDBVersion'', ''LambdaMemorySize'',
        ''EnablePrivateVPC'', ''EnablePrivateEndpoint'', ''EnableLogging'']
   \<and> findParameter ''LambdaMemorySize'' (Parameters (createStackInput nm config))
     = Some (valueParameter ''LambdaMemorySize'' (Some (String_number (lambdaMemorySize config))))
   \<and> findParameter ''DispatcherMemorySize'' (Parameters (createStackInput nm config)) = None
   \<and> findParameter ''ReducerMemorySize'' (Parameters (createStackInput nm config)) = None
   \<and> findParameter ''WorkerMemorySize'' (Parameters (createStackInput nm config)) = None
   \<and> sent (snd (createStack cf nm config))
     = sent cf @ [CreateStackCommand (createStackInput nm config)]
   \<and> createStackInput nm
        (config\<lparr>dispatcherMemorySize := d, reducerMemorySize := r, workerMemorySize := w\<rparr>)
     = createStackInput nm config
   \<and> deployService p nm
        (config\<lparr>dispatcherMemorySize := d, reducerMemorySize := r, workerMemorySize := w\<rparr>)
     = deployService p nm config
   \<and> findParameter ''DispatcherMemorySize'' (Parameters (updateStackInput nm config body))
     = Some (valueParameter ''DispatcherMemorySize''
               (Some (String_number (dispatcherMemorySize config))))
   \<and> findParameter ''ReducerMemorySize'' (Parameters (updateStackInput nm config body))
     = Some (valueParameter ''ReducerMemorySize'' (Some (String_number (reducerMemorySize config))))
   \<and> findParameter ''WorkerMemorySize'' (Parameters (updateStackInput nm config body))
     = Some (valueParameter ''WorkerMemorySize'' (Some (String_number (workerMemorySize config))))"
proof -
  have keys: "\<And>k v. ParameterKey (valueParameter k v) = k" "\<And>k. ParameterKey (previousParameter k) = k"
    by (simp_all add: valueParameter_def previousParameter_def)
  have c: "map ParameterKey (Parameters (createStackInput nm config))
     = [''StackName'', ''Arch'', ''ArtifactsBucket'', ''ClapDBVersion'', ''LambdaMemorySize'',
        ''EnablePrivateVPC'', ''EnablePrivateEndpoint'', ''EnableLogging'']"
    by (simp add: createStackInput_def keys)
  have f: "findParameter ''LambdaMemorySize'' (Parameters (createStackInput nm config))
     = Some (valueParameter ''LambdaMemorySize'' (Some (String_number (lambdaMemorySize config))))"
    "findParameter ''DispatcherMemorySize'' (Parameters (createStackInput nm config)) = None"
    "findParameter ''ReducerMemorySize'' (Parameters (createStackInput nm config)) = None"
    "findParameter ''WorkerMemorySize'' (Parameters (createStackInput nm config)) = None"
    by (simp_all add: createStackInput_def findParameter_def keys)
  have u: "findParameter ''DispatcherMemorySize'' (Parameters (updateStackInput nm config body))
     = Some (valueParameter ''DispatcherMemorySize''
               (Some (String_number (dispatcherMemorySize config))))"
    "findParameter ''ReducerMemorySize'' (Parameters (updateStackInput nm config body))
     = Some (valueParameter ''ReducerMemorySize'' (Some (String_number (reducerMemorySize config))))"
    "findParameter ''WorkerMemorySize'' (Parameters (updateStackInput nm config body))
     = Some (valueParameter ''WorkerMemorySize'' (Some (String_number (workerMemorySize config))))"
    by (simp_all add: updateStackInput_def findParameter_def keys)
  from c f u createStack_sent createStackInput_memory deployService_memory
  show ?thesis by simp
qed

section \<open>Properties of the provider registry\<close>

lemma join_contains:
  "k \<in> set ks \<Longrightarrow> \<exists>pre post. join sep ks = pre @ k @ post"
proof (induction sep ks rule: join.induct)
  case (1 sep)
  then show ?case by simp
next
  case (2 sep x)
  then have "join sep [x] = [] @ k @ []" by simp
  then show ?case by blast
next
  case (3 sep x y ys)
  show ?case
  proof (cases "k = x")
    case True
    then have "join sep (x # y # ys) = [] @ k @ (sep @ join sep (y # ys))" by simp
    then show ?thesis by blast
  next
    case False
    with 3 obtain pre post where "join sep (y # ys) = pre @ k @ post" by auto
    then have "join sep (x # y # ys) = (x @ sep @ pre) @ k @ post" by simp
    then show ?thesis by blast
  qed
qed

text \<open>
  C7, for any function taken as \<open>toLowerCase\<close>: a registration stores the
  factory under the lower-cased name and leaves the
  other names as they are; the name is appended to the registered names unless it
  is there already, and a second registration under a name that differs in case
  only replaces the factory, so that a create gets the last one. A create for a
  name whose lower-cased form is not registered fails with
  \<open>Unknown cloud provider: <name>. Available: <names>\<close>, where \<open><names>\<close> is
  the registered names joined by a comma and a space, or \<open>none\<close> when that string
  is empty, as it is for the empty registry; the message contains the joined
  names and every registered name.
\<close>

theorem registry_register_create:
  "map_of (registerCloudProvider toLowerCase reg nm factory) (toLowerCase nm) = Some factory
   \<and> (\<forall>k. k \<noteq> toLowerCase nm \<longrightarrow>
         map_of (registerCloudProvider toLowerCase reg nm factory) k = map_of reg k)
   \<and> getRegisteredProviders (registerCloudProvider toLowerCase reg nm factory)
       = (if toLowerCase nm \<in> set (getRegisteredProviders reg) then getRegisteredProviders reg
          else getRegisteredProviders reg @ [toLowerCase nm])
   \<and> (toLowerCase nm' = toLowerCase nm \<longrightarrow>
         createCloudProvider toLowerCase
           (registerCloudProvider toLowerCase (registerCloudProvider toLowerCase reg nm factory) nm' factory') nm profile
         = factory' profile)
   \<and> (map_of reg (toLowerCase nm) = None \<longrightarrow>
         createCloudProvider toLowerCase reg nm profile
           = Inl (Error (''Unknown cloud provider: '' @ nm @ ''. Available: ''
                @ (if join '', '' (getRegisteredProviders reg) = [] then ''none''
                   else join '', '' (getRegisteredProviders reg))))
       \<and> (reg = [] \<longrightarrow>
             createCloudProvider toLowerCase reg nm profile
               = Inl (Error (''Unknown cloud provider: '' @ nm @ ''. Available: none'')))
       \<and> (\<exists>pre post. createCloudProvider toLowerCase reg nm profile
               = Inl (Error (pre @ join '', '' (getRegisteredProviders reg) @ post)))
       \<and> (\<forall>k \<in> set (getRegisteredProviders reg).
             \<exists>pre post. createCloudProvider toLowerCase reg nm profile = Inl (Error (pre @ k @ post))))"
proof (intro conjI impI allI ballI)
  show "map_of (registerCloudProvider toLowerCase reg nm factory) (toLowerCase nm) = Some factory"
    by (simp add: registerCloudProvider_def update_conv')
next
  fix k assume "k \<noteq> toLowerCase nm"
  then show "map_of (registerCloudProvider toLowerCase reg nm factory) k = map_of reg k"
    by (simp add: registerCloudProvider_def update_conv')
next
  show "getRegisteredProviders (registerCloudProvider toLowerCase reg nm factory)
       = (if toLowerCase nm \<in> set (getRegisteredProviders reg) then getRegisteredProviders reg
          else getRegisteredProviders reg @ [toLowerCase nm])"
    by (simp add: registerCloudProvider_def getRegisteredProviders_def update_keys)
next
  assume "toLowerCase nm' = toLowerCase nm"
  then show "createCloudProvider toLowerCase
           (registerCloudProvider toLowerCase (registerCloudProvider toLowerCase reg nm factory) nm' factory') nm profile
         = factory' profile"
    by (simp add: createCloudProvider_def registerCloudProvider_def update_conv')
next
  assume miss: "map_of reg (toLowerCase nm) = None"
  then show msg: "createCloudProvider toLowerCase reg nm profile
           = Inl (Error (''Unknown cloud provider: '' @ nm @ ''. Available: ''
                @ (if join '', '' (getRegisteredProviders reg) = [] then ''none''
                   else join '', '' (getRegisteredProviders reg))))"
    by (simp add: createCloudProvider_def getRegisteredProviders_def Let_def)
  show "\<exists>pre post. createCloudProvider toLowerCase reg nm profile
               = Inl (Error (pre @ join '', '' (getRegisteredProviders reg) @ post))"
  proof (cases "join '', '' (getRegisteredProviders reg) = []")
    case True
    with msg have "createCloudProvider toLowerCase reg nm profile
       = Inl (Error ((''Unknown cloud provider: '' @ nm @ ''. Available: none'')
            @ join '', '' (getRegisteredProviders reg) @ []))"
      by simp
    then show ?thesis by blast
  next
    case False
    with msg have "createCloudProvider toLowerCase reg nm profile
       = Inl (Error ((''Unknown cloud provider: '' @ nm @ ''. Available: '')
            @ join '', '' (getRegisteredProviders reg) @ []))"
      by simp
    then show ?thesis by blast
  qed
  then obtain pre post where j: "createCloudProvider toLowerCase reg nm profile
               = Inl (Error (pre @ join '', '' (getRegisteredProviders reg) @ post))"
    by blast
  {
    fix k assume "k \<in> set (getRegisteredProviders reg)"
    from join_contains[OF this, of "'', ''"] obtain a b where
      "join '', '' (getRegisteredProviders reg) = a @ k @ b" by blast
    with j have "createCloudProvider toLowerCase reg nm profile = Inl (Error ((pre @ a) @ k @ (b @ post)))"
      by simp
    then show "\<exists>pre post. createCloudProvider toLowerCase reg nm profile = Inl (Error (pre @ k @ post))"
      by blast
  }
  {
    assume "reg = []"
    with msg show "createCloudProvider toLowerCase reg nm profile
               = Inl (Error (''Unknown cloud provider: '' @ nm @ ''. Available: none''))"
      by (simp add: getRegisteredProviders_def)
  }
qed

theorem registry_register_create_witness:
  "createCloudProvider lowerLatin1 ([] :: (string \<times> (string \<Rightarrow> error + string)) list)
       ''UNKNOWN'' ''default''
     = Inl (Error ''Unknown cloud provider: UNKNOWN. Available: none'')
   \<and> createCloudProvider lowerLatin1
         (registerCloudProvider lowerLatin1
            (registerCloudProvider lowerLatin1 [] ''AWS'' awsFactory) ''mock'' mockFactory)
         ''UNKNOWN'' ''default''
     = Inl (Error ''Unknown cloud provider: UNKNOWN. Available: aws, mock'')
   \<and> createCloudProvider lowerLatin1
         (registerCloudProvider lowerLatin1
            (registerCloudProvider lowerLatin1 [] ''aws'' awsFactory) ''AWS'' mockFactory)
         ''aws'' ''default''
     = Inr ''mock:default''
   \<and> createCloudProvider lowerLatin1
         (registerCloudProvider lowerLatin1
            (registerCloudProvider lowerLatin1 [] (CHR 0xE9 # ''cole'') mockFactory)
            (CHR 0xC9 # ''COLE'') awsFactory)
         (CHR 0xE9 # ''cole'') ''default''
     = Inr ''aws:default''"
proof -
  have l: "lowerLatin1 ''UNKNOWN'' = ''unknown''" "lowerLatin1 ''AWS'' = ''aws''"
    "lowerLatin1 ''aws'' = ''aws''" "lowerLatin1 ''mock'' = ''mock''"
    "lowerLatin1 (CHR 0xC9 # ''COLE'') = CHR 0xE9 # ''cole''"
    "lowerLatin1 (CHR 0xE9 # ''cole'') = CHR 0xE9 # ''cole''"
    by (simp_all add: lowerLatin1_def lowerLatin1Char_def)
  from registry_register_create
         [where reg = "[] :: (string \<times> (string \<Rightarrow> error + string)) list"
            and toLowerCase = lowerLatin1 and nm = "''UNKNOWN''" and profile = "''default''"]
  have 1: "createCloudProvider lowerLatin1 ([] :: (string \<times> (string \<Rightarrow> error + string)) list)
             ''UNKNOWN'' ''default''
     = Inl (Error ''Unknown cloud provider: UNKNOWN. Available: none'')"
    by (simp add: getRegisteredProviders_def)
  from registry_register_create
         [where reg = "registerCloudProvider lowerLatin1
                         (registerCloudProvider lowerLatin1 [] ''AWS'' awsFactory) ''mock'' mockFactory"
            and toLowerCase = lowerLatin1 and nm = "''UNKNOWN''" and profile = "''default''"]
  have 2: "createCloudProvider lowerLatin1
         (registerCloudProvider lowerLatin1
            (registerCloudProvider lowerLatin1 [] ''AWS'' awsFactory) ''mock'' mockFactory)
         ''UNKNOWN'' ''default''
     = Inl (Error ''Unknown cloud provider: UNKNOWN. Available: aws, mock'')"
    by (simp add: l registerCloudProvider_def getRegisteredProviders_def)
  from registry_register_create
         [where reg = "[] :: (string \<times> (string \<Rightarrow> error + string)) list"
            and toLowerCase = lowerLatin1 and nm = "''aws''" and factory = awsFactory
            and nm' = "''AWS''" and factory' = mockFactory and profile = "''default''"]
  have 3: "createCloudProvider lowerLatin1
         (registerCloudProvider lowerLatin1
            (registerCloudProvider lowerLatin1 [] ''aws'' awsFactory) ''AWS'' mockFactory)
         ''aws'' ''default''
     = Inr ''mock:default''"
    by (simp add: l mockFactory_def)
  from registry_register_create
         [where reg = "[] :: (string \<times> (string \<Rightarrow> error + string)) list"
            and toLowerCase = lowerLatin1 and nm = "CHR 0xE9 # ''cole''" and factory = mockFactory
            and nm' = "CHR 0xC9 # ''COLE''" and factory' = awsFactory and profile = "''default''"]
  have 4: "createCloudProvider lowerLatin1
         (registerCloudProvider lowerLatin1
            (registerCloudProvider lowerLatin1 [] (CHR 0xE9 # ''cole'') mockFactory)
            (CHR 0xC9 # ''COLE'') awsFactory)
         (CHR 0xE9 # ''cole'') ''default''
     = Inr ''aws:default''"
    by (simp add: l awsFactory_def)
  from 1 2 3 4 show ?thesis by blast
qed

section \<open>Properties of the memoized outputs\<close>

lemma updateStack_outputs: "outputs (snd (updateStack cf nm config)) = outputs cf"
  by (auto simp: updateStack_def getTemplateBody_def Let_def split: sum.splits prod.splits)

lemma getOutputs_calls:
  "describeStacksCalls (snd (getOutputs cf nm)) = Suc (describeStacksCalls cf)"
  by (simp add: getOutputs_def Let_def split: sum.splits list.splits)

lemma getOutputs_refresh:
  "describeStacksReply cf (describeStacksCalls cf) nm = Inr stacks \<Longrightarrow>
   getOutputs cf nm =
     (Inr (readOutputs stacks),
      cf\<lparr>describeStacksCalls := Suc (describeStacksCalls cf), outputs := readOutputs stacks\<rparr>)"
  by (simp add: getOutputs_def readOutputs_def Let_def)

text \<open>
  C8: while the outputs map of the instance is not empty, each of the three
  getters returns the value of its key in the map (the empty string when the key
  is missing) and leaves the instance as it is, so that no request is sent; this
  also holds after an \<open>updateStack\<close> on the same instance, which does not touch
  the map. When the map is empty, the getter runs \<open>getOutputs\<close> once (one
  \<open>DescribeStacks\<close> request) and reads the refreshed map. \<open>getOutputs\<close> itself
  always sends a request and, when it succeeds, replaces the map.
\<close>

theorem outputs_memoized:
  "(outputs cf \<noteq> [] \<longrightarrow>
      getDataApiUrl cf nm = (Inr (orEmpty (map_of (outputs cf) ''ClapDataApiURL'')), cf)
    \<and> getLicenseApiUrl cf nm = (Inr (orEmpty (map_of (outputs cf) ''ClapLicenseApiURL'')), cf)
    \<and> getInitLambdaName cf nm = (Inr (orEmpty (map_of (outputs cf) ''ClapDBInitLambda'')), cf)
    \<and> fst (getDataApiUrl (snd (updateStack cf nm config)) nm)
        = Inr (orEmpty (map_of (outputs cf) ''ClapDataApiURL''))
    \<and> fst (getLicenseApiUrl (snd (updateStack cf nm config)) nm)
        = Inr (orEmpty (map_of (outputs cf) ''ClapLicenseApiURL''))
    \<and> fst (getInitLambdaName (snd (updateStack cf nm config)) nm)
        = Inr (orEmpty (map_of (outputs cf) ''ClapDBInitLambda'')))
   \<and> (outputs cf = [] \<longrightarrow>
      getDataApiUrl cf nm
        = (case getOutputs cf nm of
             (Inl e, cf') \<Rightarrow> (Inl e, cf')
           | (Inr m, cf') \<Rightarrow> (Inr (orEmpty (map_of m ''ClapDataApiURL'')), cf'))
    \<and> getLicenseApiUrl cf nm
        = (case getOutputs cf nm of
             (Inl e, cf') \<Rightarrow> (Inl e, cf')
           | (Inr m, cf') \<Rightarrow> (Inr (orEmpty (map_of m ''ClapLicenseApiURL'')), cf'))
    \<and> getInitLambdaName cf nm
        = (case getOutputs cf nm of
             (Inl e, cf') \<Rightarrow> (Inl e, cf')
           | (Inr m, cf') \<Rightarrow> (Inr (orEmpty (map_of m ''ClapDBInitLambda'')), cf'))
    \<and> describeStacksCalls (snd (getDataApiUrl cf nm)) = Suc (describeStacksCalls cf)
    \<and> describeStacksCalls (snd (getLicenseApiUrl cf nm)) = Suc (describeStacksCalls cf)
    \<and> describeStacksCalls (snd (getInitLambdaName cf nm)) = Suc (describeStacksCalls cf))
   \<and> describeStacksCalls (snd (getOutputs cf nm)) = Suc (describeStacksCalls cf)
   \<and> (describeStacksReply cf (describeStacksCalls cf) nm = Inr stacks \<longrightarrow>
        outputs (snd (getOutputs cf nm)) = readOutputs stacks)"
proof (intro conjI impI)
  assume ne: "outputs cf \<noteq> []"
  then show "getDataApiUrl cf nm = (Inr (orEmpty (map_of (outputs cf) ''ClapDataApiURL'')), cf)"
    and "getLicenseApiUrl cf nm = (Inr (orEmpty (map_of (outputs cf) ''ClapLicenseApiURL'')), cf)"
    and "getInitLambdaName cf nm = (Inr (orEmpty (map_of (outputs cf) ''ClapDBInitLambda'')), cf)"
    by (simp_all add: getDataApiUrl_def getLicenseApiUrl_def getInitLambdaName_def)
  from ne have "outputs (snd (updateStack cf nm config)) \<noteq> []"
    by (simp add: updateStack_outputs)
  then show "fst (getDataApiUrl (snd (updateStack cf nm config)) nm)
        = Inr (orEmpty (map_of (outputs cf) ''ClapDataApiURL''))"
    and "fst (getLicenseApiUrl (snd (updateStack cf nm config)) nm)
        = Inr (orEmpty (map_of (outputs cf) ''ClapLicenseApiURL''))"
    and "fst (getInitLambdaName (snd (updateStack cf nm config)) nm)
        = Inr (orEmpty (map_of (outputs cf) ''ClapDBInitLambda''))"
    by (simp_all add: getDataApiUrl_def getLicenseApiUrl_def getInitLambdaName_def
          updateStack_outputs)
next
  assume e: "outputs cf = []"
  have o: "\<And>m cf'. getOutputs cf nm = (Inr m, cf') \<Longrightarrow> outputs cf' = m"
    by (auto simp: getOutputs_def Let_def split: sum.splits)
  show d: "getDataApiUrl cf nm
        = (case getOutputs cf nm of
             (Inl e, cf') \<Rightarrow> (Inl e, cf')
           | (Inr m, cf') \<Rightarrow> (Inr (orEmpty (map_of m ''ClapDataApiURL'')), cf'))"
    using e o by (auto simp: getDataApiUrl_def split: prod.splits sum.splits)
  show l: "getLicenseApiUrl cf nm
        = (case getOutputs cf nm of
             (Inl e, cf') \<Rightarrow> (Inl e, cf')
           | (Inr m, cf') \<Rightarrow> (Inr (orEmpty (map_of m ''ClapLicenseApiURL'')), cf'))"
    using e o by (auto simp: getLicenseApiUrl_def split: prod.splits sum.splits)
  show i: "getInitLambdaName cf nm
        = (case getOutputs cf nm of
             (Inl e, cf') \<Rightarrow> (Inl e, cf')
           | (Inr m, cf') \<Rightarrow> (Inr (orEmpty (map_of m ''ClapDBInitLambda'')), cf'))"
    using e o by (auto simp: getInitLambdaName_def split: prod.splits sum.splits)
  have s: "\<And>r cf'. getOutputs cf nm = (r, cf') \<Longrightarrow> describeStacksCalls cf' = Suc (describeStacksCalls cf)"
    using getOutputs_calls[of cf nm] by simp
  show "describeStacksCalls (snd (getDataApiUrl cf nm)) = Suc (describeStacksCalls cf)"
    unfolding d using s by (auto split: prod.splits sum.splits)
  show "describeStacksCalls (snd (getLicenseApiUrl cf nm)) = Suc (describeStacksCalls cf)"
    unfolding l using s by (auto split: prod.splits sum.splits)
  show "describeStacksCalls (snd (getInitLambdaName cf nm)) = Suc (describeStacksCalls cf)"
    unfolding i using s by (auto split: prod.splits sum.splits)
next
  show "describeStacksCalls (snd (getOutputs cf nm)) = Suc (describeStacksCalls cf)"
    by (rule getOutputs_calls)
next
  assume "describeStacksReply cf (describeStacksCalls cf) nm = Inr stacks"
  then show "outputs (snd (getOutputs cf nm)) = readOutputs stacks"
    by (simp add: getOutputs_refresh)
qed

theorem outputs_memoized_witness:
  "outputs cached \<noteq> []
   \<and> getDataApiUrl cached ''clapdb-stack'' = (Inr ''https://old.example'', cached)
   \<and> fst (getDataApiUrl (snd (updateStack cached ''clapdb-stack'' defaultConfig)) ''clapdb-stack'')
       = Inr ''https://old.example''
   \<and> outputs (serviceWith (\<lambda>i nm. Inr [deployed ''https://new.example''])) = []
   \<and> fst (getDataApiUrl (serviceWith (\<lambda>i nm. Inr [deployed ''https://new.example'']))
            ''clapdb-stack'')
       = Inr ''https://new.example''
   \<and> describeStacksCalls
        (snd (getDataApiUrl (serviceWith (\<lambda>i nm. Inr [deployed ''https://new.example'']))
            ''clapdb-stack'')) = Suc 0"
proof -
  let ?fresh = "serviceWith (\<lambda>i nm. Inr [deployed ''https://new.example''])"
  have h1: "outputs cached \<noteq> []"
    by (simp add: cached_def)
  have h2: "outputs ?fresh = []"
    by (simp add: serviceWith_def)
  have o: "outputs cached = [(''ClapDataApiURL'', ''https://old.example'')]"
    by (simp add: cached_def)
  from outputs_memoized[of cached "''clapdb-stack''" defaultConfig "[]"] h1
  have 1: "getDataApiUrl cached ''clapdb-stack'' = (Inr ''https://old.example'', cached)"
    "fst (getDataApiUrl (snd (updateStack cached ''clapdb-stack'' defaultConfig)) ''clapdb-stack'')
       = Inr ''https://old.example''"
    by (simp_all add: o)
  have g: "getOutputs ?fresh ''clapdb-stack'' =
     (Inr [(''ClapDataApiURL'', ''https://new.example''), (''ClapDBInitLambda'', ''clapdb-init'')],
      ?fresh\<lparr>describeStacksCalls := Suc 0,
             outputs := [(''ClapDataApiURL'', ''https://new.example''),
                         (''ClapDBInitLambda'', ''clapdb-init'')]\<rparr>)"
    by (simp add: getOutputs_def serviceWith_def deployed_def Let_def)
  from outputs_memoized[of ?fresh "''clapdb-stack''" defaultConfig "[]"] h2
  have 2: "fst (getDataApiUrl ?fresh ''clapdb-stack'') = Inr ''https://new.example''"
    "describeStacksCalls (snd (getDataApiUrl ?fresh ''clapdb-stack'')) = Suc 0"
    by (simp_all add: g serviceWith_sel)
  from h1 h2 1 2 show ?thesis by blast
qed

end
